theory Spec2Isabelle
  imports Complex_Main "HOL-Library.Char_ord" "HOL-Library.List_Lexorder"
begin

section \<open>Python values, errors and rounding\<close>

text \<open>
  Event dictionaries, policy contexts and result dictionaries of the program hold
  dynamically typed values. They are modelled by \<open>pyval\<close>: the JSON-shaped part of
  Python's value universe (None, bool, int, float, str, list, dict with string keys).
  Python floats are modelled as exact reals throughout, so there is no NaN, no infinity
  and no rounding error of the binary representation; a dictionary is an association
  list in insertion order, looked up with \<open>map_of\<close>.
\<close>

datatype pyval =
    PNone
  | PBool bool
  | PInt int
  | PFloat real
  | PStr string
  | PList "pyval list"
  | PDict "(string \<times> pyval) list"

datatype py_error =
  TypeError | ValueError | IndexError | KeyError | AttributeError | ZeroDivisionError

type_synonym pydict = "(string \<times> pyval) list"

text \<open>\<open>d.get(k)\<close>: the value stored under \<open>k\<close>, or None.\<close>

definition dict_get :: "pydict \<Rightarrow> string \<Rightarrow> pyval" where
  "dict_get d k = (case map_of d k of None \<Rightarrow> PNone | Some v \<Rightarrow> v)"

text \<open>Python's \<open>round\<close> rounds half to even; \<open>round(x, 4)\<close> does so at the fourth decimal.\<close>

definition round_half_even :: "real \<Rightarrow> int" where
  "round_half_even x =
     (let f = \<lfloor>x\<rfloor>; d = x - of_int f
      in if d < 1 / 2 then f else if 1 / 2 < d then f + 1
         else if even f then f else f + 1)"

definition py_round4 :: "real \<Rightarrow> real" where
  "py_round4 x = of_int (round_half_even (x * 10000)) / 10000"

definition py_round2 :: "real \<Rightarrow> real" where
  "py_round2 x = of_int (round_half_even (x * 100)) / 100"

text \<open>Comparison of two Python strings with \<open><\<close>: lexicographic, by code point.\<close>

fun str_lt :: "string \<Rightarrow> string \<Rightarrow> bool" where
  "str_lt [] [] = False"
| "str_lt [] (y # ys) = True"
| "str_lt (x # xs) [] = False"
| "str_lt (x # xs) (y # ys) =
     (if (of_char x :: nat) < of_char y then True
      else if (of_char y :: nat) < of_char x then False
      else str_lt xs ys)"

text \<open>The format specification \<open>:.2f\<close> of an f-string.\<close>

definition digit_char :: "nat \<Rightarrow> char" where
  "digit_char d = char_of (48 + d)"

fun nat_str :: "nat \<Rightarrow> string" where
  "nat_str n = (if n < 10 then [digit_char n] else nat_str (n div 10) @ [digit_char (n mod 10)])"

definition format_2f :: "real \<Rightarrow> string" where
  "format_2f x =
     (let n = nat (round_half_even (\<bar>x\<bar> * 100));
          s = nat_str (n div 100) @ ''.'' @ [digit_char ((n mod 100) div 10), digit_char (n mod 10)]
      in if x < 0 then ''-'' @ s else s)"

section \<open>Access context (access/context.py)\<close>

record DeviceHealth =
  device_id :: string
  os_patched :: bool
  antivirus_active :: bool
  disk_encrypted :: bool
  firewall_enabled :: bool
  compliance_score :: real
  last_check :: real

definition health_score :: "DeviceHealth \<Rightarrow> real" where
  "health_score d =
     (let checks = [os_patched d, antivirus_active d, disk_encrypted d, firewall_enabled d];
          binary_score = real (length (filter id checks)) / real (length checks)
      in py_round4 (binary_score * 0.6 + compliance_score d * 0.4))"

record AccessContext =
  ctx_entity_id :: string
  resource :: string
  ctx_action :: string
  source_ip :: string
  location :: string
  hour :: int
  day_of_week :: int
  device :: DeviceHealth
  behavior_score :: real
  ctx_risk_score :: real
  ctx_session_id :: string
  authentication_method :: string
  mfa_verified :: bool
  network_zone :: string
  ctx_timestamp :: real
  metadata :: pydict

definition auth_strength :: "AccessContext \<Rightarrow> real" where
  "auth_strength ctx =
     (let base = (case map_of
                     [(''certificate'', 0.9), (''hardware_token'', 0.85), (''biometric'', 0.8),
                      (''totp'', 0.7), (''password'', 0.4), (''api_key'', 0.5),
                      (''session_cookie'', 0.3)] (authentication_method ctx)
                  of None \<Rightarrow> 0.3 | Some b \<Rightarrow> b)
      in if mfa_verified ctx then min 1.0 (base + 0.2) else base)"

definition network_trust :: "AccessContext \<Rightarrow> real" where
  "network_trust ctx =
     (case map_of [(''internal'', 0.7), (''vpn'', 0.6), (''dmz'', 0.4), (''external'', 0.2)]
             (network_zone ctx)
      of None \<Rightarrow> 0.1 | Some t \<Rightarrow> t)"

definition to_dict :: "AccessContext \<Rightarrow> pydict" where
  "to_dict ctx =
     [(''entity_id'', PStr (ctx_entity_id ctx)),
      (''resource'', PStr (resource ctx)),
      (''action'', PStr (ctx_action ctx)),
      (''source_ip'', PStr (source_ip ctx)),
      (''location'', PStr (location ctx)),
      (''device_health'', PFloat (health_score (device ctx))),
      (''behavior_score'', PFloat (behavior_score ctx)),
      (''risk_score'', PFloat (ctx_risk_score ctx)),
      (''auth_strength'', PFloat (auth_strength ctx)),
      (''network_trust'', PFloat (network_trust ctx)),
      (''mfa_verified'', PBool (mfa_verified ctx))]"

section \<open>Access decision engine (access/engine.py)\<close>

datatype Decision = ALLOW | DENY | CHALLENGE | RESTRICT

text \<open>\<open>Decision\<close> is a \<open>str\<close> enumeration; \<open>.value\<close> is the member's string.\<close>

fun Decision_value :: "Decision \<Rightarrow> string" where
  "Decision_value ALLOW = ''allow''"
| "Decision_value DENY = ''deny''"
| "Decision_value CHALLENGE = ''challenge''"
| "Decision_value RESTRICT = ''restrict''"

record AccessDecision =
  decision :: Decision
  confidence :: real
  risk_level :: real
  reasons :: "string list"
  required_actions :: "string list"
  context_summary :: pydict
  ad_timestamp :: real

record AccessDecisionEngine =
  deny_threshold :: real
  challenge_threshold :: real
  restrict_threshold :: real
  decision_log :: "AccessDecision list"
  resource_sensitivity :: "string \<rightharpoonup> real"

text \<open>The engine as its constructor leaves it; the defaults are 0.3, 0.5 and 0.7.\<close>

definition init_AccessDecisionEngine :: "real \<Rightarrow> real \<Rightarrow> real \<Rightarrow> AccessDecisionEngine" where
  "init_AccessDecisionEngine d c r =
     \<lparr>deny_threshold = d, challenge_threshold = c, restrict_threshold = r,
      decision_log = [], resource_sensitivity = Map.empty\<rparr>"

definition set_resource_sensitivity ::
  "AccessDecisionEngine \<Rightarrow> string \<Rightarrow> real \<Rightarrow> AccessDecisionEngine" where
  "set_resource_sensitivity e res level =
     e\<lparr>resource_sensitivity := (resource_sensitivity e)(res \<mapsto> max 0.0 (min 1.0 level))\<rparr>"

definition calculate_trust_score :: "AccessContext \<Rightarrow> real" where
  "calculate_trust_score ctx =
     (let trust = auth_strength ctx * 0.20
                + health_score (device ctx) * 0.20
                + max 0.0 (1.0 - behavior_score ctx) * 0.25
                + network_trust ctx * 0.15
                + max 0.0 (1.0 - ctx_risk_score ctx) * 0.20
      in py_round4 (max 0.0 (min 1.0 trust)))"

text \<open>
  \<open>evaluate\<close> appends its result to the decision log, so it returns the updated engine
  with the decision. The clock reading that stamps the decision is the parameter \<open>now\<close>.
\<close>

definition evaluate ::
  "AccessDecisionEngine \<Rightarrow> real \<Rightarrow> AccessContext \<Rightarrow> AccessDecisionEngine \<times> AccessDecision" where
  "evaluate e now ctx =
     (let trust_score = calculate_trust_score ctx;
          sensitivity = (case resource_sensitivity e (resource ctx) of None \<Rightarrow> 0.5 | Some s \<Rightarrow> s);
          effective_deny = deny_threshold e * (1 + sensitivity * 0.5);
          effective_challenge = challenge_threshold e * (1 + sensitivity * 0.3);
          effective_restrict = restrict_threshold e * (1 + sensitivity * 0.2);
          (dec, rs, acts) =
            (if trust_score < effective_deny then
               (DENY,
                [''Trust score '' @ format_2f trust_score @ '' below deny threshold ''
                   @ format_2f effective_deny]
                @ (if behavior_score ctx > 0.7 then [''High behavioral anomaly score''] else [])
                @ (if health_score (device ctx) < 0.5 then [''Device health below minimum''] else []),
                [])
             else if trust_score < effective_challenge then
               (CHALLENGE,
                [''Trust score '' @ format_2f trust_score @ '' requires step-up auth''],
                (if \<not> mfa_verified ctx then [''mfa_verification''] else [])
                @ (if health_score (device ctx) < 0.7 then [''device_compliance_check''] else []))
             else if trust_score < effective_restrict then
               (RESTRICT,
                [''Trust score '' @ format_2f trust_score @ '' allows restricted access''],
                (if ctx_action ctx \<in> set [''write'', ''delete'', ''admin'']
                 then [''reduce_to_read_only''] else []))
             else
               (ALLOW, [''Trust score '' @ format_2f trust_score @ '' meets threshold''], []));
          result = \<lparr>decision = dec,
                    confidence = min 1.0 (\<bar>trust_score - 0.5\<bar> * 2),
                    risk_level = py_round4 (1.0 - trust_score),
                    reasons = rs,
                    required_actions = acts,
                    context_summary = to_dict ctx,
                    ad_timestamp = now\<rparr>
      in (e\<lparr>decision_log := decision_log e @ [result]\<rparr>, result))"

text \<open>The order of strictness the specification names: ALLOW < RESTRICT < CHALLENGE < DENY.\<close>

fun strictness :: "Decision \<Rightarrow> nat" where
  "strictness ALLOW = 0"
| "strictness RESTRICT = 1"
| "strictness CHALLENGE = 2"
| "strictness DENY = 3"

section \<open>Continuous verifier (access/verification.py)\<close>

record VerificationState =
  vs_entity_id :: string
  vs_session_id :: string
  initial_decision :: Decision
  current_decision :: Decision
  last_verified :: real
  verification_count :: int
  escalation_count :: int
  trust_history :: "real list"

record ContinuousVerifier =
  engine :: AccessDecisionEngine
  reverify_interval :: real
  trust_decay_rate :: real
  states :: "string \<rightharpoonup> VerificationState"

definition session_key :: "string \<Rightarrow> string \<Rightarrow> string" where
  "session_key eid sid = eid @ '':'' @ sid"

definition initialize_session ::
  "ContinuousVerifier \<Rightarrow> real \<Rightarrow> AccessContext \<Rightarrow> ContinuousVerifier \<times> pydict" where
  "initialize_session v now ctx =
     (let (eng, d) = evaluate (engine v) now ctx;
          state = \<lparr>vs_entity_id = ctx_entity_id ctx,
                   vs_session_id = ctx_session_id ctx,
                   initial_decision = decision d,
                   current_decision = decision d,
                   last_verified = now,
                   verification_count = 0,
                   escalation_count = 0,
                   trust_history = [1.0 - risk_level d]\<rparr>;
          key = session_key (ctx_entity_id ctx) (ctx_session_id ctx)
      in (v\<lparr>engine := eng, states := (states v)(key \<mapsto> state)\<rparr>,
          [(''session_id'', PStr (ctx_session_id ctx)),
           (''initial_decision'', PStr (Decision_value (decision d))),
           (''risk_level'', PFloat (risk_level d)),
           (''next_verification'', PFloat (now + reverify_interval v))]))"

definition trust_trend :: "VerificationState \<Rightarrow> string" where
  "trust_trend state =
     (let history = trust_history state
      in if length history < 2 then ''stable''
         else
           let recent = drop (length history - 3) history
           in if length recent \<ge> 2 then
                (let delta = last recent - hd recent
                 in if delta < - 0.1 then ''degrading''
                    else if delta > 0.1 then ''improving''
                    else ''stable'')
              else ''stable'')"

definition reverify ::
  "ContinuousVerifier \<Rightarrow> real \<Rightarrow> AccessContext \<Rightarrow> ContinuousVerifier \<times> pydict" where
  "reverify v now ctx =
     (let key = session_key (ctx_entity_id ctx) (ctx_session_id ctx)
      in case states v key of
           None \<Rightarrow> initialize_session v now ctx
         | Some state \<Rightarrow>
             (let state1 = state\<lparr>verification_count := verification_count state + 1,
                                 last_verified := now\<rparr>;
                  (eng, d) = evaluate (engine v) now ctx;
                  new_trust = 1.0 - risk_level d;
                  state2 = state1\<lparr>trust_history := trust_history state1 @ [new_trust]\<rparr>;
                  escalated = str_lt (Decision_value (decision d))
                                     (Decision_value (current_decision state2));
                  state3 = (if escalated
                            then state2\<lparr>escalation_count := escalation_count state2 + 1\<rparr>
                            else state2);
                  prev_decision = current_decision state3;
                  state4 = state3\<lparr>current_decision := decision d\<rparr>
              in (v\<lparr>engine := eng, states := (states v)(key \<mapsto> state4)\<rparr>,
                  [(''session_id'', PStr (ctx_session_id ctx)),
                   (''previous_decision'', PStr (Decision_value prev_decision)),
                   (''current_decision'', PStr (Decision_value (decision d))),
                   (''risk_level'', PFloat (risk_level d)),
                   (''trust_trend'', PStr (trust_trend state4)),
                   (''escalated'', PBool escalated),
                   (''verification_count'', PInt (verification_count state4))])))"


section \<open>Python operations on dynamic values\<close>

text \<open>Truth value of an object in a condition (\<open>if x:\<close>).\<close>

fun py_truthy :: "pyval \<Rightarrow> bool" where
  "py_truthy PNone = False"
| "py_truthy (PBool b) = b"
| "py_truthy (PInt i) = (i \<noteq> 0)"
| "py_truthy (PFloat r) = (r \<noteq> 0)"
| "py_truthy (PStr s) = (s \<noteq> [])"
| "py_truthy (PList xs) = (xs \<noteq> [])"
| "py_truthy (PDict d) = (d \<noteq> [])"

text \<open>The number a value stands for in arithmetic and ordering, if it is bool, int or float.\<close>

fun py_num :: "pyval \<Rightarrow> real option" where
  "py_num (PBool b) = Some (if b then 1 else 0)"
| "py_num (PInt i) = Some (of_int i)"
| "py_num (PFloat r) = Some r"
| "py_num _ = None"

text \<open>
  Dictionary keys: numbers that compare equal are the same key, lists and dictionaries
  are unhashable (\<open>None\<close> here, a TypeError in the program).
\<close>

datatype pykey = KNone | KNum real | KStr string

fun py_key :: "pyval \<Rightarrow> pykey option" where
  "py_key PNone = Some KNone"
| "py_key (PStr s) = Some (KStr s)"
| "py_key (PList xs) = None"
| "py_key (PDict d) = None"
| "py_key v = map_option KNum (py_num v)"

text \<open>\<open>d[k] = v\<close> on a dictionary kept in insertion order.\<close>

fun dict_set :: "('k \<times> 'v) list \<Rightarrow> 'k \<Rightarrow> 'v \<Rightarrow> ('k \<times> 'v) list" where
  "dict_set [] k v = [(k, v)]"
| "dict_set ((k', v') # d) k v = (if k' = k then (k, v) # d else (k', v') # dict_set d k v)"

text \<open>\<open>int(x)\<close>: truncation of a float, decimal parsing of a string.\<close>

definition is_digit :: "char \<Rightarrow> bool" where
  "is_digit c = (48 \<le> (of_char c :: nat) \<and> (of_char c :: nat) \<le> 57)"

definition is_space :: "char \<Rightarrow> bool" where
  "is_space c = ((of_char c :: nat) \<in> set [9, 10, 11, 12, 13, 32])"

fun parse_digits :: "string \<Rightarrow> nat \<Rightarrow> bool \<Rightarrow> nat option" where
  "parse_digits [] acc lastd = (if lastd then Some acc else None)"
| "parse_digits (c # cs) acc lastd =
     (if is_digit c then parse_digits cs (acc * 10 + (of_char c - 48)) True
      else if c = CHR ''_'' \<and> lastd then parse_digits cs acc False
      else None)"

definition parse_int :: "string \<Rightarrow> py_error + int" where
  "parse_int s =
     (let t = rev (dropWhile is_space (rev (dropWhile is_space s)))
      in case t of
           [] \<Rightarrow> Inl ValueError
         | c # cs \<Rightarrow>
             (if c = CHR ''-'' then
                (case parse_digits cs 0 False of None \<Rightarrow> Inl ValueError | Some n \<Rightarrow> Inr (- int n))
              else if c = CHR ''+'' then
                (case parse_digits cs 0 False of None \<Rightarrow> Inl ValueError | Some n \<Rightarrow> Inr (int n))
              else
                (case parse_digits t 0 False of None \<Rightarrow> Inl ValueError | Some n \<Rightarrow> Inr (int n))))"

fun py_int :: "pyval \<Rightarrow> py_error + int" where
  "py_int (PBool b) = Inr (if b then 1 else 0)"
| "py_int (PInt i) = Inr i"
| "py_int (PFloat r) = Inr (if 0 \<le> r then \<lfloor>r\<rfloor> else \<lceil>r\<rceil>)"
| "py_int (PStr s) = parse_int s"
| "py_int _ = Inl TypeError"

section \<open>Behavioral baseline (behavioral/baseline.py)\<close>

record BaselineProfile =
  bp_entity_id :: string
  entity_type :: pyval
  created_at :: real
  updated_at :: real
  observation_count :: int
  hour_distribution :: "real list"
  dow_distribution :: "real list"
  resource_frequencies :: "(pykey \<times> int) list"
  action_frequencies :: "(pykey \<times> int) list"
  session_duration_mean :: real
  session_duration_m2 :: real
  session_count :: int
  locations_seen :: "(pykey \<times> int) list"
  source_ips :: "(pykey \<times> int) list"
  feature_stats :: "(string \<times> real \<times> real \<times> int) list"

text \<open>A profile as the dataclass creates it; both timestamps are the clock reading.\<close>

definition new_BaselineProfile :: "string \<Rightarrow> pyval \<Rightarrow> real \<Rightarrow> BaselineProfile" where
  "new_BaselineProfile eid etype now =
     \<lparr>bp_entity_id = eid, entity_type = etype, created_at = now, updated_at = now,
      observation_count = 0,
      hour_distribution = replicate 24 0, dow_distribution = replicate 7 0,
      resource_frequencies = [], action_frequencies = [],
      session_duration_mean = 0, session_duration_m2 = 0, session_count = 0,
      locations_seen = [], source_ips = [], feature_stats = []\<rparr>"

definition session_duration_variance :: "BaselineProfile \<Rightarrow> real" where
  "session_duration_variance p =
     (if session_count p < 2 then 0.0
      else session_duration_m2 p / of_int (session_count p - 1))"

text \<open>\<open>math.sqrt\<close> raises ValueError on a negative argument.\<close>

definition session_duration_std :: "BaselineProfile \<Rightarrow> py_error + real" where
  "session_duration_std p =
     (if session_duration_variance p < 0 then Inl ValueError
      else Inr (sqrt (session_duration_variance p)))"

definition hour_probabilities :: "BaselineProfile \<Rightarrow> real list" where
  "hour_probabilities p =
     (let total = sum_list (hour_distribution p)
      in if total = 0 then replicate 24 (1 / 24.0)
         else map (\<lambda>x. x / total) (hour_distribution p))"

definition dow_probabilities :: "BaselineProfile \<Rightarrow> real list" where
  "dow_probabilities p =
     (let total = sum_list (dow_distribution p)
      in if total = 0 then replicate 7 (1 / 7.0)
         else map (\<lambda>x. x / total) (dow_distribution p))"

record BehavioralBaseline =
  profiles :: "string \<rightharpoonup> BaselineProfile"
  decay_factor :: real


definition get_profile :: "BehavioralBaseline \<Rightarrow> string \<Rightarrow> BaselineProfile option" where
  "get_profile bl eid = profiles bl eid"

text \<open>
  \<open>observe\<close> mutates the profile field by field, and an exception leaves the fields
  already written in place. Each part of its body is a step that returns the exception
  raised, if any, with the profile as it stands at that point.
\<close>

type_synonym profile_step = "BaselineProfile \<Rightarrow> py_error option \<times> BaselineProfile"

definition then_step :: "profile_step \<Rightarrow> profile_step \<Rightarrow> profile_step" where
  "then_step f g p = (case f p of (Some e, p') \<Rightarrow> (Some e, p') | (None, p') \<Rightarrow> g p')"

text \<open>\<open>counts[k] = counts.get(k, 0) + 1\<close>, guarded by \<open>if k:\<close>.\<close>

definition count_key :: "pyval \<Rightarrow> (pykey \<times> int) list \<Rightarrow> py_error + (pykey \<times> int) list" where
  "count_key v counts =
     (if py_truthy v then
        (case py_key v of
           None \<Rightarrow> Inl TypeError
         | Some k \<Rightarrow> Inr (dict_set counts k ((case map_of counts k of None \<Rightarrow> 0 | Some c \<Rightarrow> c) + 1)))
      else Inr counts)"

definition observe_hour :: "pydict \<Rightarrow> profile_step" where
  "observe_hour event p =
     (case dict_get event ''hour'' of
        PNone \<Rightarrow> (None, p)
      | h \<Rightarrow>
         (case py_num h of
            None \<Rightarrow> (Some TypeError, p)
          | Some x \<Rightarrow>
              if 0 \<le> x \<and> x < 24
              then (None, p\<lparr>hour_distribution :=
                              (hour_distribution p)[nat \<lfloor>x\<rfloor> := hour_distribution p ! nat \<lfloor>x\<rfloor> + 1]\<rparr>)
              else (None, p)))"

definition observe_dow :: "pydict \<Rightarrow> profile_step" where
  "observe_dow event p =
     (case dict_get event ''day_of_week'' of
        PNone \<Rightarrow> (None, p)
      | d \<Rightarrow>
         (case py_num d of
            None \<Rightarrow> (Some TypeError, p)
          | Some x \<Rightarrow>
              if 0 \<le> x \<and> x < 7
              then (None, p\<lparr>dow_distribution :=
                              (dow_distribution p)[nat \<lfloor>x\<rfloor> := dow_distribution p ! nat \<lfloor>x\<rfloor> + 1]\<rparr>)
              else (None, p)))"

definition observe_resource :: "pydict \<Rightarrow> profile_step" where
  "observe_resource event p =
     (case count_key (dict_get event ''resource'') (resource_frequencies p) of
        Inl e \<Rightarrow> (Some e, p)
      | Inr c \<Rightarrow> (None, p\<lparr>resource_frequencies := c\<rparr>))"

definition observe_action :: "pydict \<Rightarrow> profile_step" where
  "observe_action event p =
     (case count_key (dict_get event ''action'') (action_frequencies p) of
        Inl e \<Rightarrow> (Some e, p)
      | Inr c \<Rightarrow> (None, p\<lparr>action_frequencies := c\<rparr>))"

text \<open>
  The session counter is incremented before the subtraction that can raise on a
  non-numeric duration.
\<close>

definition observe_duration :: "pydict \<Rightarrow> profile_step" where
  "observe_duration event p =
     (case dict_get event ''session_duration'' of
        PNone \<Rightarrow> (None, p)
      | d \<Rightarrow>
         (let p1 = p\<lparr>session_count := session_count p + 1\<rparr>
          in case py_num d of
               None \<Rightarrow> (Some TypeError, p1)
             | Some duration \<Rightarrow>
                 (let delta = duration - session_duration_mean p1;
                      p2 = p1\<lparr>session_duration_mean :=
                                session_duration_mean p1 + delta / of_int (session_count p1)\<rparr>;
                      delta2 = duration - session_duration_mean p2
                  in (None, p2\<lparr>session_duration_m2 := session_duration_m2 p2 + delta * delta2\<rparr>))))"

definition observe_location :: "pydict \<Rightarrow> profile_step" where
  "observe_location event p =
     (case count_key (dict_get event ''location'') (locations_seen p) of
        Inl e \<Rightarrow> (Some e, p)
      | Inr c \<Rightarrow> (None, p\<lparr>locations_seen := c\<rparr>))"

definition observe_source_ip :: "pydict \<Rightarrow> profile_step" where
  "observe_source_ip event p =
     (case count_key (dict_get event ''source_ip'') (source_ips p) of
        Inl e \<Rightarrow> (Some e, p)
      | Inr c \<Rightarrow> (None, p\<lparr>source_ips := c\<rparr>))"

text \<open>The loop over \<open>features.items()\<close>: one Welford update per feature.\<close>

fun observe_feature_items :: "pydict \<Rightarrow> profile_step" where
  "observe_feature_items [] p = (None, p)"
| "observe_feature_items ((feat_name, feat_val) # fs) p =
     (let p1 = (if map_of (feature_stats p) feat_name = None
                then p\<lparr>feature_stats := dict_set (feature_stats p) feat_name (0.0, 0.0, 0)\<rparr>
                else p);
          (mean, m2, count) = (case map_of (feature_stats p1) feat_name of
                                 None \<Rightarrow> (0.0, 0.0, 0) | Some st \<Rightarrow> st);
          count1 = count + 1
      in case py_num feat_val of
           None \<Rightarrow> (Some TypeError, p1)
         | Some x \<Rightarrow>
             (let delta = x - mean;
                  mean1 = mean + delta / of_int count1;
                  delta2 = x - mean1;
                  m21 = m2 + delta * delta2
              in observe_feature_items fs
                   (p1\<lparr>feature_stats := dict_set (feature_stats p1) feat_name (mean1, m21, count1)\<rparr>)))"

text \<open>\<open>event.get("features", {})\<close> followed by \<open>.items()\<close>, which only a dictionary has.\<close>

definition observe_features :: "pydict \<Rightarrow> profile_step" where
  "observe_features event p =
     (case map_of event ''features'' of
        None \<Rightarrow> (None, p)
      | Some (PDict fs) \<Rightarrow> observe_feature_items fs p
      | Some _ \<Rightarrow> (Some AttributeError, p))"




definition decay_profiles :: "BehavioralBaseline \<Rightarrow> BehavioralBaseline" where
  "decay_profiles bl =
     bl\<lparr>profiles := map_option
           (\<lambda>p. p\<lparr>hour_distribution := map (\<lambda>x. x * decay_factor bl) (hour_distribution p),
                  dow_distribution := map (\<lambda>x. x * decay_factor bl) (dow_distribution p)\<rparr>)
         \<circ> profiles bl\<rparr>"

section \<open>Anomaly detector (behavioral/anomaly.py)\<close>

record AnomalyResult =
  ar_entity_id :: string
  anomaly_score :: real
  is_anomalous :: bool
  ar_details :: pydict
  component_scores :: "(string \<times> real) list"

record AnomalyDetector =
  baseline :: BehavioralBaseline
  threshold :: real
  ad_weights :: "(string \<times> real) list"

definition init_AnomalyDetector ::
  "BehavioralBaseline \<Rightarrow> real \<Rightarrow> real \<Rightarrow> real \<Rightarrow> real \<Rightarrow> real \<Rightarrow> real \<Rightarrow> AnomalyDetector" where
  "init_AnomalyDetector bl thr time_weight resource_weight location_weight ip_weight duration_weight =
     \<lparr>baseline = bl, threshold = thr,
      ad_weights = [(''time'', time_weight), (''resource'', resource_weight),
                    (''location'', location_weight), (''ip'', ip_weight),
                    (''duration'', duration_weight)]\<rparr>"

definition bind_err :: "py_error + 'a \<Rightarrow> ('a \<Rightarrow> py_error + 'b) \<Rightarrow> py_error + 'b" where
  "bind_err m f = (case m of Inl e \<Rightarrow> Inl e | Inr x \<Rightarrow> f x)"

text \<open>Indexing with an integer: negative indices count from the end, others raise.\<close>

definition py_index :: "'a list \<Rightarrow> int \<Rightarrow> py_error + 'a" where
  "py_index xs i =
     (if 0 \<le> i \<and> i < int (length xs) then Inr (xs ! nat i)
      else if - int (length xs) \<le> i \<and> i < 0 then Inr (xs ! nat (int (length xs) + i))
      else Inl IndexError)"

text \<open>\<open>max\<close> of a nonempty sequence, and \<open>argmax\<close>: the first position of the maximum.\<close>

definition list_max :: "'a::linorder list \<Rightarrow> py_error + 'a" where
  "list_max xs = (case xs of [] \<Rightarrow> Inl ValueError | x # ys \<Rightarrow> Inr (fold max ys x))"

definition argmax_list :: "real list \<Rightarrow> int" where
  "argmax_list xs =
     (case list_max xs of Inl e \<Rightarrow> 0 | Inr m \<Rightarrow> int (length (takeWhile (\<lambda>x. x \<noteq> m) xs)))"

definition time_anomaly :: "BaselineProfile \<Rightarrow> int \<Rightarrow> py_error + real \<times> pydict" where
  "time_anomaly profile h =
     (let probs = hour_probabilities profile
      in bind_err (py_index probs h) (\<lambda>prob.
         bind_err (list_max probs) (\<lambda>max_prob.
           if max_prob = 0 then Inr (0.0, [(''hour'', PInt h), (''probability'', PFloat 0.0)])
           else
             bind_err (py_index (hour_distribution profile) h) (\<lambda>raw.
               let relative = 1.0 - prob / max_prob;
                   relative1 = (if raw = 0 then min (relative + 0.3) 1.0 else relative)
               in Inr (py_round4 relative1,
                       [(''hour'', PInt h),
                        (''probability'', PFloat (py_round4 prob)),
                        (''peak_hour'', PInt (argmax_list probs))])))))"

definition resource_anomaly :: "BaselineProfile \<Rightarrow> pyval \<Rightarrow> py_error + real \<times> pydict" where
  "resource_anomaly profile res =
     (case py_key res of
        None \<Rightarrow> Inl TypeError
      | Some k \<Rightarrow>
         (let count = (case map_of (resource_frequencies profile) k of None \<Rightarrow> 0 | Some c \<Rightarrow> c);
              total = sum_list (map snd (resource_frequencies profile))
          in if total = 0 then Inr (0.5, [(''resource'', res), (''seen_count'', PInt 0)])
             else if count = 0 then
               (let n_unique = length (resource_frequencies profile);
                    novelty = max 0.6 (1.0 - real n_unique / 100.0)
                in Inr (py_round4 novelty,
                        [(''resource'', res), (''seen_count'', PInt 0), (''novel'', PBool True)]))
             else
               bind_err (list_max (map snd (resource_frequencies profile))) (\<lambda>max_count.
                 let freq = of_int count / of_int total;
                     max_freq = of_int max_count / of_int total;
                     score = (if max_freq > 0 then 1.0 - freq / max_freq else 0.0)
                 in Inr (py_round4 (score * 0.5),
                         [(''resource'', res), (''seen_count'', PInt count),
                          (''frequency'', PFloat (py_round4 freq))]))))"

definition location_anomaly :: "BaselineProfile \<Rightarrow> pyval \<Rightarrow> py_error + real \<times> pydict" where
  "location_anomaly profile loc =
     (case py_key loc of
        None \<Rightarrow> Inl TypeError
      | Some k \<Rightarrow>
         (let count = (case map_of (locations_seen profile) k of None \<Rightarrow> 0 | Some c \<Rightarrow> c)
          in if count = 0 then
               Inr (0.9, [(''location'', loc), (''novel'', PBool True), (''seen_count'', PInt 0)])
             else
               (let total = sum_list (map snd (locations_seen profile));
                    freq = (if total > 0 then of_int count / of_int total else 0.0);
                    score = max 0.0 (1.0 - freq * 5)
                in Inr (py_round4 score,
                        [(''location'', loc), (''seen_count'', PInt count),
                         (''frequency'', PFloat (py_round4 freq))]))))"

definition ip_anomaly :: "BaselineProfile \<Rightarrow> pyval \<Rightarrow> py_error + real \<times> pydict" where
  "ip_anomaly profile ip =
     (case py_key ip of
        None \<Rightarrow> Inl TypeError
      | Some k \<Rightarrow>
         (let count = (case map_of (source_ips profile) k of None \<Rightarrow> 0 | Some c \<Rightarrow> c)
          in if count = 0 then
               Inr (0.8, [(''source_ip'', ip), (''novel'', PBool True), (''seen_count'', PInt 0)])
             else
               (let total = sum_list (map snd (source_ips profile));
                    freq = (if total > 0 then of_int count / of_int total else 0.0);
                    score = max 0.0 (1.0 - freq * 3)
                in Inr (py_round4 score,
                        [(''source_ip'', ip), (''seen_count'', PInt count),
                         (''frequency'', PFloat (py_round4 freq))]))))"

definition duration_anomaly :: "BaselineProfile \<Rightarrow> pyval \<Rightarrow> py_error + real \<times> pydict" where
  "duration_anomaly profile duration =
     (if session_count profile < 5 then
        Inr (0.0, [(''duration'', duration), (''insufficient_data'', PBool True)])
      else
        bind_err (session_duration_std profile) (\<lambda>std0.
          let std = (if std0 = 0 then 1.0 else std0)
          in case py_num duration of
               None \<Rightarrow> Inl TypeError
             | Some x \<Rightarrow>
                 (let z_score = \<bar>x - session_duration_mean profile\<bar> / std;
                      score = 1.0 / (1.0 + exp (- 1.5 * (z_score - 2.0)))
                  in Inr (py_round4 score,
                          [(''duration'', duration),
                           (''z_score'', PFloat (py_round4 z_score)),
                           (''baseline_mean'', PFloat (py_round2 (session_duration_mean profile))),
                           (''baseline_std'', PFloat (py_round2 std))]))))"

text \<open>
  The five blocks of \<open>analyze\<close> that fill the dictionaries \<open>scores\<close> and \<open>details\<close>: each
  yields the entries it adds (none when the event lacks the field), or the exception.
\<close>

type_synonym component = "string \<times> real \<times> pydict"

definition named :: "string \<Rightarrow> py_error + real \<times> pydict \<Rightarrow> py_error + component list" where
  "named key r = bind_err r (\<lambda>(score, detail). Inr [(key, score, detail)])"

definition time_component :: "BaselineProfile \<Rightarrow> pydict \<Rightarrow> py_error + component list" where
  "time_component profile event =
     (case dict_get event ''hour'' of
        PNone \<Rightarrow> Inr []
      | h \<Rightarrow> bind_err (py_int h) (\<lambda>i. named ''time'' (time_anomaly profile i)))"

definition resource_component :: "BaselineProfile \<Rightarrow> pydict \<Rightarrow> py_error + component list" where
  "resource_component profile event =
     (let res = dict_get event ''resource''
      in if py_truthy res then named ''resource'' (resource_anomaly profile res) else Inr [])"

definition location_component :: "BaselineProfile \<Rightarrow> pydict \<Rightarrow> py_error + component list" where
  "location_component profile event =
     (let loc = dict_get event ''location''
      in if py_truthy loc then named ''location'' (location_anomaly profile loc) else Inr [])"

definition ip_component :: "BaselineProfile \<Rightarrow> pydict \<Rightarrow> py_error + component list" where
  "ip_component profile event =
     (let ip = dict_get event ''source_ip''
      in if py_truthy ip then named ''ip'' (ip_anomaly profile ip) else Inr [])"

definition duration_component :: "BaselineProfile \<Rightarrow> pydict \<Rightarrow> py_error + component list" where
  "duration_component profile event =
     (case dict_get event ''session_duration'' of
        PNone \<Rightarrow> Inr []
      | d \<Rightarrow> named ''duration'' (duration_anomaly profile d))"

text \<open>The weighted composite over the entries of \<open>scores\<close>, in insertion order.\<close>

definition composite_score_of :: "(string \<times> real) list \<Rightarrow> (string \<times> real) list \<Rightarrow> real" where
  "composite_score_of ws scores =
     (if scores = [] then 0.0
      else
        let w = (\<lambda>key. case map_of ws key of None \<Rightarrow> 0.1 | Some x \<Rightarrow> x);
            weighted_sum = foldl (\<lambda>acc (key, score). acc + score * w key) 0.0 scores;
            weight_sum = foldl (\<lambda>acc (key, score). acc + w key) 0.0 scores
        in if weight_sum > 0 then weighted_sum / weight_sum else 0.0)"

text \<open>
  \<open>analyze\<close> reads the profile through \<open>get_profile\<close>; the detector, which holds the
  baseline store, is returned with the result so that its effect on the store is explicit.
\<close>

definition analyze ::
  "AnomalyDetector \<Rightarrow> string \<Rightarrow> pydict \<Rightarrow> AnomalyDetector \<times> (py_error + AnomalyResult)" where
  "analyze det eid event =
     (let insufficient = \<lparr>ar_entity_id = eid, anomaly_score = 0.5, is_anomalous = False,
                          ar_details = [(''reason'', PStr ''insufficient_baseline'')],
                          component_scores = []\<rparr>
      in case get_profile (baseline det) eid of
           None \<Rightarrow> (det, Inr insufficient)
         | Some profile \<Rightarrow>
             if observation_count profile < 10 then (det, Inr insufficient)
             else
               (det,
                bind_err (time_component profile event) (\<lambda>c1.
                bind_err (resource_component profile event) (\<lambda>c2.
                bind_err (location_component profile event) (\<lambda>c3.
                bind_err (ip_component profile event) (\<lambda>c4.
                bind_err (duration_component profile event) (\<lambda>c5.
                  let cs = c1 @ c2 @ c3 @ c4 @ c5;
                      scores = map (\<lambda>(key, score, detail). (key, score)) cs;
                      details = map (\<lambda>(key, score, detail). (key, PDict detail)) cs;
                      composite = composite_score_of (ad_weights det) scores
                  in Inr \<lparr>ar_entity_id = eid,
                          anomaly_score = py_round4 composite,
                          is_anomalous = (composite \<ge> threshold det),
                          ar_details = details,
                          component_scores = scores\<rparr>)))))))"


text \<open>
  The duration component as the specification words it: skipped when fewer than five
  sessions were seen, otherwise the logistic function of \<open>1.5 (z - 2)\<close> with
  \<open>z = |x - mean| / max (stddev, 1)\<close>.
\<close>

definition spec_duration_score :: "BaselineProfile \<Rightarrow> real \<Rightarrow> real option" where
  "spec_duration_score profile x =
     (if session_count profile < 5 then None
      else
        let z = \<bar>x - session_duration_mean profile\<bar>
                  / max (sqrt (session_duration_variance profile)) 1
        in Some (1 / (1 + exp (- (1.5 * (z - 2))))))"

section \<open>Risk engine (risk/engine.py)\<close>

record RiskScore =
  rs_entity_id :: string
  composite_score :: real
  rs_risk_level :: string
  components :: "(string \<times> real) list"
  rs_timestamp :: real
  factors :: "string list"

record ThreatIntel =
  malicious_ips :: "string set"
  compromised_credentials :: "string set"
  tor_exit_nodes :: "string set"

definition init_ThreatIntel :: ThreatIntel where
  "init_ThreatIntel = \<lparr>malicious_ips = {}, compromised_credentials = {}, tor_exit_nodes = {}\<rparr>"

definition check_ip :: "ThreatIntel \<Rightarrow> string \<Rightarrow> real" where
  "check_ip ti ip =
     (if ip \<in> malicious_ips ti then 1.0
      else if ip \<in> tor_exit_nodes ti then 0.7
      else 0.0)"

definition check_credential :: "ThreatIntel \<Rightarrow> string \<Rightarrow> real" where
  "check_credential ti eid = (if eid \<in> compromised_credentials ti then 0.9 else 0.0)"

record RiskEngine =
  re_weights :: "(string \<times> real) list"
  threat_intel :: ThreatIntel
  risk_history :: "string \<rightharpoonup> RiskScore list"
  thresholds :: "(string \<times> real) list"

definition init_RiskEngine :: "real \<Rightarrow> real \<Rightarrow> real \<Rightarrow> real \<Rightarrow> real \<Rightarrow> RiskEngine" where
  "init_RiskEngine behavior_weight device_weight network_weight threat_weight auth_weight =
     \<lparr>re_weights = [(''behavior'', behavior_weight), (''device'', device_weight),
                    (''network'', network_weight), (''threat'', threat_weight),
                    (''auth'', auth_weight)],
      threat_intel = init_ThreatIntel,
      risk_history = Map.empty,
      thresholds = [(''low'', 0.3), (''medium'', 0.5), (''high'', 0.7), (''critical'', 0.9)]\<rparr>"

text \<open>The engine with the default weights of the constructor.\<close>

definition default_RiskEngine :: RiskEngine where
  "default_RiskEngine = init_RiskEngine 0.30 0.20 0.15 0.20 0.15"

text \<open>\<open>sum(components[k] * weights[k] for k in weights)\<close>; a missing component is a KeyError.\<close>

fun sum_products :: "(string \<times> real) list \<Rightarrow> real \<Rightarrow> (string \<times> real) list \<Rightarrow> py_error + real" where
  "sum_products comps acc [] = Inr acc"
| "sum_products comps acc ((k, w) # ws) =
     (case map_of comps k of
        None \<Rightarrow> Inl KeyError
      | Some c \<Rightarrow> sum_products comps (acc + c * w) ws)"

text \<open>The loop over the labels from critical down to low, with its \<open>break\<close>.\<close>

fun find_level :: "(string \<times> real) list \<Rightarrow> real \<Rightarrow> string list \<Rightarrow> py_error + string" where
  "find_level thr composite [] = Inr ''low''"
| "find_level thr composite (lbl # lbls) =
     (case map_of thr lbl of
        None \<Rightarrow> Inl KeyError
      | Some t \<Rightarrow> if composite \<ge> t then Inr lbl else find_level thr composite lbls)"

definition calculate ::
  "RiskEngine \<Rightarrow> real \<Rightarrow> string \<Rightarrow> real \<Rightarrow> real \<Rightarrow> real \<Rightarrow> string \<Rightarrow> real
     \<Rightarrow> RiskEngine \<times> (py_error + RiskScore)" where
  "calculate eng now eid behavior device_health net_trust src_ip auth =
     (let factors1 = (if behavior > 0.7 then [''High behavioral anomaly''] else []);
          factors2 = factors1 @ (if device_health < 0.5 then [''Poor device health''] else []);
          factors3 = factors2 @ (if net_trust < 0.3 then [''Untrusted network''] else []);
          ip_score = (if src_ip \<noteq> [] then check_ip (threat_intel eng) src_ip else 0.0);
          (threat1, factors4) =
             (if src_ip \<noteq> [] \<and> ip_score > 0
              then (max 0.0 ip_score, factors3 @ [''Threat intel match on IP''])
              else (0.0, factors3));
          cred_score = check_credential (threat_intel eng) eid;
          (threat_score, factors5) =
             (if cred_score > 0
              then (max threat1 cred_score, factors4 @ [''Compromised credential''])
              else (threat1, factors4));
          factors6 = factors5 @ (if auth < 0.4 then [''Weak authentication''] else []);
          comps = [(''behavior'', behavior),
                   (''device'', max 0.0 (1.0 - device_health)),
                   (''network'', max 0.0 (1.0 - net_trust)),
                   (''threat'', threat_score),
                   (''auth'', max 0.0 (1.0 - auth))]
      in case sum_products comps 0 (re_weights eng) of
           Inl e \<Rightarrow> (eng, Inl e)
         | Inr weighted \<Rightarrow>
            (let composite = py_round4 (max 0.0 (min 1.0 weighted))
             in case find_level (thresholds eng) composite [''critical'', ''high'', ''medium'', ''low''] of
                  Inl e \<Rightarrow> (eng, Inl e)
                | Inr level \<Rightarrow>
                   (let result = \<lparr>rs_entity_id = eid, composite_score = composite,
                                  rs_risk_level = level, components = comps,
                                  rs_timestamp = now, factors = factors6\<rparr>;
                        history = (case risk_history eng eid of None \<Rightarrow> [] | Some h \<Rightarrow> h)
                    in (eng\<lparr>risk_history := (risk_history eng)(eid \<mapsto> history @ [result])\<rparr>,
                        Inr result))))"

section \<open>Policy conditions (policy/models.py)\<close>

text \<open>
  \<open>==\<close> on dynamic values: numbers compare by value across bool, int and float, lists
  element by element, dictionaries as mappings, everything else only with its own kind.
\<close>

fun py_eq :: "pyval \<Rightarrow> pyval \<Rightarrow> bool"
  and py_eq_list :: "pyval list \<Rightarrow> pyval list \<Rightarrow> bool"
  and py_eq_items :: "(string \<times> pyval) list \<Rightarrow> (string \<times> pyval) list \<Rightarrow> bool" where
  "py_eq PNone PNone = True"
| "py_eq (PStr s) (PStr t) = (s = t)"
| "py_eq (PList xs) (PList ys) = py_eq_list xs ys"
| "py_eq (PDict d) (PDict d') = (length d = length d' \<and> py_eq_items d d')"
| "py_eq (PBool a) v = (case py_num v of None \<Rightarrow> False | Some y \<Rightarrow> (if a then 1 else 0) = y)"
| "py_eq (PInt a) v = (case py_num v of None \<Rightarrow> False | Some y \<Rightarrow> of_int a = y)"
| "py_eq (PFloat a) v = (case py_num v of None \<Rightarrow> False | Some y \<Rightarrow> a = y)"
| "py_eq _ _ = False"
| "py_eq_list [] [] = True"
| "py_eq_list (x # xs) (y # ys) = (py_eq x y \<and> py_eq_list xs ys)"
| "py_eq_list _ _ = False"
| "py_eq_items [] d' = True"
| "py_eq_items ((k, v) # d) d' =
     (case map_of d' k of None \<Rightarrow> False | Some v' \<Rightarrow> py_eq v v' \<and> py_eq_items d d')"

datatype cmp_op = Lt | Le | Gt | Ge

fun cmp_real :: "cmp_op \<Rightarrow> real \<Rightarrow> real \<Rightarrow> bool" where
  "cmp_real Lt a b = (a < b)"
| "cmp_real Le a b = (a \<le> b)"
| "cmp_real Gt a b = (a > b)"
| "cmp_real Ge a b = (a \<ge> b)"

fun cmp_str :: "cmp_op \<Rightarrow> string \<Rightarrow> string \<Rightarrow> bool" where
  "cmp_str Lt a b = str_lt a b"
| "cmp_str Le a b = (\<not> str_lt b a)"
| "cmp_str Gt a b = str_lt b a"
| "cmp_str Ge a b = (\<not> str_lt a b)"

text \<open>
  The ordering operators \<open><\<close>, \<open><=\<close>, \<open>>\<close>, \<open>>=\<close>: defined between two numbers, two strings
  and two lists (at the first pair of unequal elements, else by length); any other pair
  of operands raises TypeError.
\<close>

fun py_order :: "cmp_op \<Rightarrow> pyval \<Rightarrow> pyval \<Rightarrow> py_error + bool"
  and py_order_list :: "cmp_op \<Rightarrow> pyval list \<Rightarrow> pyval list \<Rightarrow> py_error + bool" where
  "py_order op (PStr s) (PStr t) = Inr (cmp_str op s t)"
| "py_order op (PList xs) (PList ys) = py_order_list op xs ys"
| "py_order op a v =
     (case (py_num a, py_num v) of
        (Some x, Some y) \<Rightarrow> Inr (cmp_real op x y)
      | _ \<Rightarrow> Inl TypeError)"
| "py_order_list op [] [] = Inr (op = Le \<or> op = Ge)"
| "py_order_list op [] (y # ys) = Inr (op = Lt \<or> op = Le)"
| "py_order_list op (x # xs) [] = Inr (op = Gt \<or> op = Ge)"
| "py_order_list op (x # xs) (y # ys) =
     (if py_eq x y then py_order_list op xs ys else py_order op x y)"

text \<open>\<open>a in v\<close>: membership in a list, substring of a string, key of a dictionary.\<close>

fun is_substring :: "string \<Rightarrow> string \<Rightarrow> bool" where
  "is_substring s [] = (s = [])"
| "is_substring s (c # cs) = (take (length s) (c # cs) = s \<or> is_substring s cs)"

fun py_contains :: "pyval \<Rightarrow> pyval \<Rightarrow> py_error + bool" where
  "py_contains a (PList xs) = Inr (list_ex (py_eq a) xs)"
| "py_contains (PStr s) (PStr t) = Inr (is_substring s t)"
| "py_contains a (PStr t) = Inl TypeError"
| "py_contains a (PDict d) =
     (case py_key a of
        None \<Rightarrow> Inl TypeError
      | Some (KStr s) \<Rightarrow> Inr (map_of d s \<noteq> None)
      | Some _ \<Rightarrow> Inr False)"
| "py_contains a v = Inl TypeError"

record PolicyCondition =
  field :: string
  operator :: string
  cond_value :: pyval

text \<open>The table \<open>ops\<close>: the operator's function, if the name is one of the eight.\<close>

definition ops :: "string \<Rightarrow> (pyval \<Rightarrow> pyval \<Rightarrow> py_error + bool) option" where
  "ops name =
     map_of
       [(''eq'', \<lambda>a v. Inr (py_eq a v)),
        (''ne'', \<lambda>a v. Inr (\<not> py_eq a v)),
        (''gt'', py_order Gt),
        (''lt'', py_order Lt),
        (''gte'', py_order Ge),
        (''lte'', py_order Le),
        (''in'', py_contains),
        (''not_in'', \<lambda>a v. map_sum id Not (py_contains a v))] name"

definition cond_evaluate :: "PolicyCondition \<Rightarrow> pydict \<Rightarrow> bool" where
  "cond_evaluate c context =
     (case dict_get context (field c) of
        PNone \<Rightarrow> False
      | actual \<Rightarrow>
         (case ops (operator c) of
            None \<Rightarrow> False
          | Some op_fn \<Rightarrow>
             (case op_fn actual (cond_value c) of
                Inl e \<Rightarrow> False
              | Inr b \<Rightarrow> b)))"

text \<open>The operator names of the four ordering comparisons.\<close>

fun ordering_name :: "cmp_op \<Rightarrow> string" where
  "ordering_name Lt = ''lt''"
| "ordering_name Le = ''lte''"
| "ordering_name Gt = ''gt''"
| "ordering_name Ge = ''gte''"

text \<open>
  The ordering operators as the specification words them: both operands are cast to
  numbers and compared; where an operand is not a number the condition does not match.
\<close>

definition spec_ordering :: "cmp_op \<Rightarrow> pyval \<Rightarrow> pyval \<Rightarrow> bool" where
  "spec_ordering op a v =
     (case (py_num a, py_num v) of
        (Some x, Some y) \<Rightarrow> cmp_real op x y
      | _ \<Rightarrow> False)"

section \<open>Access graph (lateral/graph.py)\<close>

record AccessEdge =
  src :: string
  dst :: string
  edge_action :: string
  edge_timestamp :: real
  credential_type :: string
  success :: bool
  edge_risk_score :: real

text \<open>
  The dictionaries of the graph are association lists in insertion order; a feature
  vector is a list of reals.
\<close>

record AccessGraph =
  edges :: "AccessEdge list"
  adjacency :: "(string \<times> (string \<times> AccessEdge list) list) list"
  node_types :: "(string \<times> string) list"
  node_features :: "(string \<times> real list) list"

definition init_AccessGraph :: AccessGraph where
  "init_AccessGraph = \<lparr>edges = [], adjacency = [], node_types = [], node_features = []\<rparr>"

definition add_node :: "AccessGraph \<Rightarrow> string \<Rightarrow> string \<Rightarrow> real list option \<Rightarrow> AccessGraph" where
  "add_node g node_id node_type features =
     g\<lparr>node_types := dict_set (node_types g) node_id node_type,
       node_features := dict_set (node_features g) node_id
          (case features of None \<Rightarrow> replicate 8 0 | Some f \<Rightarrow> f)\<rparr>"

definition add_edge :: "AccessGraph \<Rightarrow> AccessEdge \<Rightarrow> AccessGraph" where
  "add_edge g edge =
     (let row = (case map_of (adjacency g) (src edge) of None \<Rightarrow> [] | Some r \<Rightarrow> r);
          cell = (case map_of row (dst edge) of None \<Rightarrow> [] | Some c \<Rightarrow> c);
          g1 = g\<lparr>edges := edges g @ [edge],
                 adjacency := dict_set (adjacency g) (src edge)
                                (dict_set row (dst edge) (cell @ [edge]))\<rparr>;
          g2 = (if map_of (node_types g1) (src edge) = None
                then add_node g1 (src edge) ''entity'' None else g1)
      in if map_of (node_types g2) (dst edge) = None
         then add_node g2 (dst edge) ''resource'' None else g2)"

text \<open>
  The neighbours of a node. The program returns a set, whose iteration order is not
  fixed; the model lists them in the order of the adjacency dictionary.
\<close>

definition get_neighbors :: "AccessGraph \<Rightarrow> string \<Rightarrow> string list" where
  "get_neighbors g node_id =
     map fst (case map_of (adjacency g) node_id of None \<Rightarrow> [] | Some r \<Rightarrow> r)"

definition get_edges_between :: "AccessGraph \<Rightarrow> string \<Rightarrow> string \<Rightarrow> AccessEdge list" where
  "get_edges_between g s d =
     (case map_of (case map_of (adjacency g) s of None \<Rightarrow> [] | Some r \<Rightarrow> r) d of
        None \<Rightarrow> [] | Some es \<Rightarrow> es)"

text \<open>
  The adjacency matrix over the sorted node names: the entry for a pair of nodes is the
  number of edges recorded between them.
\<close>

definition adjacency_matrix :: "AccessGraph \<Rightarrow> string list \<times> real list list" where
  "adjacency_matrix g =
     (let nodes = sort (remdups (map fst (node_types g)))
      in (nodes, map (\<lambda>s. map (\<lambda>d. real (length (get_edges_between g s d))) nodes) nodes))"

text \<open>
  Assigning a vector to a row of a matrix: the lengths agree, or a single entry is
  broadcast; anything else is a ValueError.
\<close>

definition broadcast_row :: "nat \<Rightarrow> real list \<Rightarrow> py_error + real list" where
  "broadcast_row n v =
     (if length v = n then Inr v
      else if length v = 1 then Inr (replicate n (hd v))
      else Inl ValueError)"

fun collect_rows :: "(py_error + real list) list \<Rightarrow> py_error + real list list" where
  "collect_rows [] = Inr []"
| "collect_rows (r # rs) =
     bind_err r (\<lambda>row. bind_err (collect_rows rs) (\<lambda>rows. Inr (row # rows)))"

definition feature_matrix :: "AccessGraph \<Rightarrow> py_error + string list \<times> real list list" where
  "feature_matrix g =
     (let nodes = sort (map fst (node_features g))
      in case node_features g of
           [] \<Rightarrow> Inr ([], [])
         | (n0, f0) # rest \<Rightarrow>
             (let dim = length f0
              in bind_err
                   (collect_rows
                      (map (\<lambda>node. broadcast_row dim
                               (case map_of (node_features g) node of None \<Rightarrow> [] | Some f \<Rightarrow> f))
                           nodes))
                   (\<lambda>mat. Inr (nodes, mat))))"

text \<open>
  \<open>all_paths\<close>: the depth-first search. \<open>path\<close> and \<open>visited\<close> grow by the neighbour on the
  way down and lose it on the way back, so each call receives its own extended copies;
  the result is the list of paths in the order the search appends them.
\<close>

function dfs ::
  "AccessGraph \<Rightarrow> int \<Rightarrow> string \<Rightarrow> string \<Rightarrow> string list \<Rightarrow> string list \<Rightarrow> string list list" where
  "dfs g max_depth current target path visited =
     (if int (length path) > max_depth then []
      else if current = target then [path]
      else concat (map (\<lambda>neighbor.
                          if neighbor \<in> set visited then []
                          else dfs g max_depth neighbor target (path @ [neighbor]) (neighbor # visited))
                       (get_neighbors g current)))"
  by pat_completeness auto
termination
  by (relation "measure (\<lambda>(g, max_depth, current, target, path, visited).
                           nat (max_depth + 1 - int (length path)))") auto

declare dfs.simps [simp del]

definition all_paths :: "AccessGraph \<Rightarrow> string \<Rightarrow> string \<Rightarrow> int \<Rightarrow> string list list" where
  "all_paths g s d max_depth = dfs g max_depth s d [s] [s]"

section \<open>Lateral movement detector (lateral/detector.py)\<close>

record LateralMovementAlert =
  alert_type :: string
  severity :: real
  path :: "string list"
  alert_details :: pydict

text \<open>
  A layer holds the matrices the constructor draws from a seeded Gaussian generator,
  of shapes (in, out), (in, out) and (out); their entries are parameters of the model.
\<close>

record GNNLayer =
  W_self :: "real list list"
  W_neigh :: "real list list"
  bias :: "real list"

text \<open>The matrix product \<open>A @ B\<close>; the inner dimensions must agree.\<close>

definition ncols :: "real list list \<Rightarrow> nat" where
  "ncols B = (case B of [] \<Rightarrow> 0 | r # rs \<Rightarrow> length r)"

definition mat_mul :: "real list list \<Rightarrow> real list list \<Rightarrow> py_error + real list list" where
  "mat_mul A B =
     (if list_all (\<lambda>row. length row = length B) A
      then Inr (map (\<lambda>row. map (\<lambda>j. sum_list (map (\<lambda>(a, brow). a * brow ! j) (zip row B)))
                              [0 ..< ncols B]) A)
      else Inl ValueError)"

definition forward :: "GNNLayer \<Rightarrow> real list list \<Rightarrow> real list list \<Rightarrow> py_error + real list list" where
  "forward layer features adj =
     (let adj_norm = map (\<lambda>row. let degree = sum_list row;
                                     degree1 = (if degree = 0 then 1 else degree)
                                 in map (\<lambda>x. x / degree1) row) adj
      in bind_err (mat_mul features (W_self layer)) (\<lambda>self_transform.
         bind_err (mat_mul adj_norm features) (\<lambda>agg.
         bind_err (mat_mul agg (W_neigh layer)) (\<lambda>neighbor_agg.
           if length self_transform = length neighbor_agg
              \<and> list_all (\<lambda>row. length row = length (bias layer)) (self_transform @ neighbor_agg)
           then Inr (map (\<lambda>(srow, nrow).
                            map (\<lambda>(sn, b). max (fst sn + snd sn + b) 0) (zip (zip srow nrow) (bias layer)))
                         (zip self_transform neighbor_agg))
           else Inl ValueError))))"

record LateralMovementDetector =
  graph :: AccessGraph
  hop_threshold :: int
  gnn_layer1 :: GNNLayer
  gnn_layer2 :: GNNLayer
  baseline_embeddings :: "(string \<times> real list) list"
  anomaly_threshold :: real

definition add_access_event :: "LateralMovementDetector \<Rightarrow> AccessEdge \<Rightarrow> LateralMovementDetector" where
  "add_access_event det edge = det\<lparr>graph := add_edge (graph det) edge\<rparr>"

definition compute_embeddings ::
  "LateralMovementDetector \<Rightarrow> py_error + string list \<times> real list list" where
  "compute_embeddings det =
     bind_err (feature_matrix (graph det)) (\<lambda>(nodes, features).
       if length nodes = 0 then Inr ([], [])
       else
         (let adj = snd (adjacency_matrix (graph det))
          in bind_err (forward (gnn_layer1 det) features adj) (\<lambda>h1.
             bind_err (forward (gnn_layer2 det) h1 adj) (\<lambda>h2.
               Inr (nodes, h2)))))"

definition learn_baseline ::
  "LateralMovementDetector \<Rightarrow> LateralMovementDetector \<times> (py_error + int)" where
  "learn_baseline det =
     (case compute_embeddings det of
        Inl e \<Rightarrow> (det, Inl e)
      | Inr (nodes, embeddings) \<Rightarrow>
          (det\<lparr>baseline_embeddings :=
                 fold (\<lambda>(node, emb) d. dict_set d node emb) (zip nodes embeddings)
                      (baseline_embeddings det)\<rparr>,
           Inr (int (length nodes))))"

text \<open>The edges grouped by source, sources in order of first appearance.\<close>

definition group_by_source :: "AccessEdge list \<Rightarrow> (string \<times> AccessEdge list) list" where
  "group_by_source es =
     fold (\<lambda>edge by_source.
             dict_set by_source (src edge)
               ((case map_of by_source (src edge) of None \<Rightarrow> [] | Some l \<Rightarrow> l) @ [edge]))
          es []"

text \<open>The destinations in order, each kept at its first occurrence.\<close>

definition unique_in_order :: "string list \<Rightarrow> string list" where
  "unique_in_order xs = fold (\<lambda>x acc. if x \<in> set acc then acc else acc @ [x]) xs []"

text \<open>The slice \<open>xs[:k]\<close>; a negative \<open>k\<close> counts from the end.\<close>

definition py_slice_to :: "'a list \<Rightarrow> int \<Rightarrow> 'a list" where
  "py_slice_to xs k = (if 0 \<le> k then take (nat k) xs else take (nat (int (length xs) + k)) xs)"

definition hopping_alert ::
  "int \<Rightarrow> string \<Rightarrow> AccessEdge list \<Rightarrow> py_error + LateralMovementAlert list" where
  "hopping_alert hop s es =
     (let sorted_edges = sort_key edge_timestamp es;
          unique_targets = unique_in_order (map dst sorted_edges)
      in if int (length unique_targets) \<ge> hop then
           (if hop * 2 = 0 then Inl ZeroDivisionError
            else
              (let sev = min 1.0 (real (length unique_targets) / of_int (hop * 2))
               in Inr [\<lparr>alert_type = ''credential_hopping'',
                        severity = py_round4 sev,
                        path = [s] @ py_slice_to unique_targets (hop + 2),
                        alert_details = [(''source'', PStr s),
                                         (''hop_count'', PInt (int (length unique_targets))),
                                         (''threshold'', PInt hop)]\<rparr>]))
         else Inr [])"

text \<open>A loop whose body may raise: the alerts of the parts in order, or the first exception.\<close>

fun collect_alerts ::
  "(py_error + LateralMovementAlert list) list \<Rightarrow> py_error + LateralMovementAlert list" where
  "collect_alerts [] = Inr []"
| "collect_alerts (r # rs) =
     bind_err r (\<lambda>as. bind_err (collect_alerts rs) (\<lambda>bs. Inr (as @ bs)))"

definition detect_credential_hopping ::
  "LateralMovementDetector \<Rightarrow> py_error + LateralMovementAlert list" where
  "detect_credential_hopping det =
     collect_alerts (map (\<lambda>(s, es). hopping_alert (hop_threshold det) s es)
                         (group_by_source (edges (graph det))))"

definition detect_privilege_escalation :: "LateralMovementDetector \<Rightarrow> LateralMovementAlert list" where
  "detect_privilege_escalation det =
     (let feats = node_features (graph det);
          high_priv_nodes = map fst (filter (\<lambda>(node, f). length f > 0 \<and> hd f > 0.7) feats);
          low_priv_nodes = map fst (filter (\<lambda>(node, f). length f > 0 \<and> \<not> hd f > 0.7 \<and> hd f < 0.3) feats)
      in concat (map (\<lambda>low.
           concat (map (\<lambda>high.
             concat (map (\<lambda>p.
               if length p \<ge> 3 then
                 [\<lparr>alert_type = ''privilege_escalation'',
                   severity = py_round4 (0.6 + 0.1 * real (length p)),
                   path = p,
                   alert_details = [(''source'', PStr low), (''target'', PStr high),
                                    (''hops'', PInt (int (length p) - 1))]\<rparr>]
               else [])
               (all_paths (graph det) low high 4)))
             high_priv_nodes))
           low_priv_nodes))"

definition embedding_alert ::
  "real \<Rightarrow> (string \<times> real list) list \<Rightarrow> string \<times> real list
     \<Rightarrow> py_error + LateralMovementAlert list" where
  "embedding_alert thr base = (\<lambda>(node, cur).
     case map_of base node of
       None \<Rightarrow> Inr []
     | Some b \<Rightarrow>
         if length cur \<noteq> length b then Inl ValueError
         else
           (let distance = sqrt (sum_list (map (\<lambda>(x, y). (x - y)\<^sup>2) (zip cur b)))
            in if distance > thr then
                 (if thr * 3 = 0 then Inl ZeroDivisionError
                  else
                    (let sev = min 1.0 (distance / (thr * 3))
                     in Inr [\<lparr>alert_type = ''embedding_anomaly'',
                              severity = py_round4 sev,
                              path = [node],
                              alert_details = [(''node'', PStr node),
                                               (''embedding_distance'', PFloat (py_round4 distance)),
                                               (''threshold'', PFloat thr)]\<rparr>]))
               else Inr []))"

definition detect_embedding_anomalies ::
  "LateralMovementDetector \<Rightarrow> py_error + LateralMovementAlert list" where
  "detect_embedding_anomalies det =
     (if baseline_embeddings det = [] then Inr []
      else
        bind_err (compute_embeddings det) (\<lambda>(nodes, current).
          collect_alerts
            (map (embedding_alert (anomaly_threshold det) (baseline_embeddings det))
                 (zip nodes current))))"

text \<open>
  \<open>detect\<close>: the three detectors in turn, then a stable sort by decreasing severity.
\<close>

definition detect :: "LateralMovementDetector \<Rightarrow> py_error + LateralMovementAlert list" where
  "detect det =
     bind_err (detect_credential_hopping det) (\<lambda>a1.
       let a2 = detect_privilege_escalation det
       in bind_err (detect_embedding_anomalies det) (\<lambda>a3.
            Inr (sort_key (\<lambda>a. - severity a) (a1 @ a2 @ a3))))"

section \<open>Concrete inputs\<close>

text \<open>A session that starts with full trust and one that starts with none.\<close>

definition trusted_ctx :: AccessContext where
  "trusted_ctx =
     \<lparr>ctx_entity_id = ''alice'', resource = ''docs'', ctx_action = ''read'',
      source_ip = '''', location = '''', hour = - 1, day_of_week = - 1,
      device = \<lparr>device_id = '''', os_patched = True, antivirus_active = True,
                 disk_encrypted = True, firewall_enabled = True, compliance_score = 1,
                 last_check = 0\<rparr>,
      behavior_score = 0, ctx_risk_score = 0, ctx_session_id = ''s1'',
      authentication_method = ''certificate'', mfa_verified = True,
      network_zone = ''internal'', ctx_timestamp = 0, metadata = []\<rparr>"

definition untrusted_ctx :: AccessContext where
  "untrusted_ctx =
     trusted_ctx\<lparr>
       device := \<lparr>device_id = '''', os_patched = False, antivirus_active = False,
                  disk_encrypted = False, firewall_enabled = False, compliance_score = 0,
                  last_check = 0\<rparr>,
       behavior_score := 1, ctx_risk_score := 1,
       authentication_method := ''password'', mfa_verified := False,
       network_zone := ''external''\<rparr>"

definition default_verifier :: ContinuousVerifier where
  "default_verifier =
     \<lparr>engine = init_AccessDecisionEngine 0.3 0.5 0.7, reverify_interval = 300,
      trust_decay_rate = 0.01, states = Map.empty\<rparr>"


text \<open>
  A detector with the default threshold and weights over a store that holds one profile
  with ten observations and the given session statistics. The statistics 5, 10, 1 are
  those of the durations 9.5, 10.5, 9.5, 10.5, 10, whose standard deviation is 0.5.
\<close>

definition profile_with_sessions :: "int \<Rightarrow> real \<Rightarrow> real \<Rightarrow> BaselineProfile" where
  "profile_with_sessions n mean m2 =
     (new_BaselineProfile ''u'' (PStr ''user'') 0)
       \<lparr>observation_count := 10, session_count := n,
        session_duration_mean := mean, session_duration_m2 := m2\<rparr>"

definition detector_over :: "BaselineProfile \<Rightarrow> AnomalyDetector" where
  "detector_over p =
     init_AnomalyDetector \<lparr>profiles = [''u'' \<mapsto> p], decay_factor = 0.995\<rparr>
       0.7 0.2 0.25 0.25 0.15 0.15"

text \<open>
  A detector over four hosts: a low-privilege host that reaches two intermediate hosts
  and a high-privilege host directly, and a chain from the first intermediate host to the
  high-privilege one. No baseline embeddings are stored, so the layers are never applied.
\<close>

definition host_edge :: "string \<Rightarrow> string \<Rightarrow> real \<Rightarrow> AccessEdge" where
  "host_edge s d t =
     \<lparr>src = s, dst = d, edge_action = ''access'', edge_timestamp = t,
      credential_type = ''password'', success = True, edge_risk_score = 0\<rparr>"

definition hosts_graph :: AccessGraph where
  "hosts_graph =
     fold (\<lambda>e g. add_edge g e)
       [host_edge ''low'' ''m1'' 1, host_edge ''low'' ''m2'' 2, host_edge ''low'' ''high'' 3,
        host_edge ''m1'' ''m2'' 4, host_edge ''m2'' ''high'' 5]
       (add_node (add_node (add_node (add_node init_AccessGraph
          ''low'' ''host'' (Some [0.1])) ''m1'' ''host'' (Some [0.5]))
          ''m2'' ''host'' (Some [0.5])) ''high'' ''host'' (Some [0.9]))"

definition hosts_detector :: LateralMovementDetector where
  "hosts_detector =
     \<lparr>graph = hosts_graph, hop_threshold = 3,
      gnn_layer1 = \<lparr>W_self = [], W_neigh = [], bias = []\<rparr>,
      gnn_layer2 = \<lparr>W_self = [], W_neigh = [], bias = []\<rparr>,
      baseline_embeddings = [], anomaly_threshold = 2.0\<rparr>"

section \<open>Statistics of a sequence\<close>






text \<open>
  The running statistics of a profile, and what it means for a triple of count, mean and
  sum of squared deviations to be the statistics of a sequence.
\<close>

definition session_stats :: "BaselineProfile \<Rightarrow> int \<times> real \<times> real" where
  "session_stats p = (session_count p, session_duration_mean p, session_duration_m2 p)"



section \<open>Events with fields of the documented types\<close>



fun is_numeric :: "pyval \<Rightarrow> bool" where
  "is_numeric (PBool b) = True"
| "is_numeric (PInt i) = True"
| "is_numeric (PFloat r) = True"
| "is_numeric _ = False"



section \<open>Decisions and resource sensitivity\<close>

lemma round_half_even_of_int [simp]: "round_half_even (of_int n) = n"
  by (simp add: round_half_even_def)

lemma decision_evaluate:
  "decision (snd (evaluate e now ctx)) =
     (let t = calculate_trust_score ctx;
          s = (case resource_sensitivity e (resource ctx) of None \<Rightarrow> 0.5 | Some s \<Rightarrow> s)
      in if t < deny_threshold e * (1 + s * 0.5) then DENY
         else if t < challenge_threshold e * (1 + s * 0.3) then CHALLENGE
         else if t < restrict_threshold e * (1 + s * 0.2) then RESTRICT
         else ALLOW)"
  by (simp add: evaluate_def Let_def)

lemma risk_level_evaluate:
  "risk_level (snd (evaluate e now ctx)) = py_round4 (1 - calculate_trust_score ctx)"
  by (simp add: evaluate_def Let_def split_beta)

text \<open>
  C7. With the default thresholds 0.3, 0.5 and 0.7, whatever the decision log and the
  sensitivities of other resources, the decision for a context against its resource at
  sensitivity 1.0 is at least as strict (ALLOW < RESTRICT < CHALLENGE < DENY) as the
  decision for the same context against that resource at sensitivity 0.0.
\<close>

theorem evaluate_sensitivity_monotone:
  "strictness (decision (snd (evaluate
       (set_resource_sensitivity
          (e\<lparr>deny_threshold := 0.3, challenge_threshold := 0.5, restrict_threshold := 0.7\<rparr>)
          (resource ctx) 0.0) now ctx)))
   \<le> strictness (decision (snd (evaluate
       (set_resource_sensitivity
          (e\<lparr>deny_threshold := 0.3, challenge_threshold := 0.5, restrict_threshold := 0.7\<rparr>)
          (resource ctx) 1.0) now' ctx)))"
  by (simp add: decision_evaluate set_resource_sensitivity_def Let_def)

section \<open>Continuous verification\<close>

lemma trust_trusted_ctx: "calculate_trust_score trusted_ctx = 0.955"
  by (simp add: calculate_trust_score_def trusted_ctx_def auth_strength_def health_score_def
      network_trust_def py_round4_def round_half_even_def)

lemma trust_untrusted_ctx: "calculate_trust_score untrusted_ctx = 0.11"
  by (simp add: calculate_trust_score_def trusted_ctx_def untrusted_ctx_def auth_strength_def
      health_score_def network_trust_def py_round4_def round_half_even_def)

lemma ctx_ids:
  "ctx_entity_id untrusted_ctx = ''alice''" "ctx_session_id untrusted_ctx = ''s1''"
  "ctx_entity_id trusted_ctx = ''alice''" "ctx_session_id trusted_ctx = ''s1''"
  "resource trusted_ctx = ''docs''" "resource untrusted_ctx = ''docs''"
  by (simp_all add: trusted_ctx_def untrusted_ctx_def)

lemma reverify_fields:
  assumes "states v (session_key (ctx_entity_id ctx) (ctx_session_id ctx)) = Some st"
  shows "map_of (snd (reverify v now ctx)) ''escalated''
           = Some (PBool (str_lt (Decision_value (decision (snd (evaluate (engine v) now ctx))))
                                 (Decision_value (current_decision st))))"
    and "map_of (snd (reverify v now ctx)) ''previous_decision''
           = Some (PStr (Decision_value (current_decision st)))"
    and "map_of (snd (reverify v now ctx)) ''current_decision''
           = Some (PStr (Decision_value (decision (snd (evaluate (engine v) now ctx)))))"
    and "map_option escalation_count
           (states (fst (reverify v now ctx)) (session_key (ctx_entity_id ctx) (ctx_session_id ctx)))
           = Some (escalation_count st
                   + (if str_lt (Decision_value (decision (snd (evaluate (engine v) now ctx))))
                                (Decision_value (current_decision st)) then 1 else 0))"
  using assms by (simp_all add: reverify_def Let_def split_beta)

lemma initialize_session_state:
  "states (fst (initialize_session v now ctx)) (session_key (ctx_entity_id ctx) (ctx_session_id ctx))
     = Some \<lparr>vs_entity_id = ctx_entity_id ctx, vs_session_id = ctx_session_id ctx,
             initial_decision = decision (snd (evaluate (engine v) now ctx)),
             current_decision = decision (snd (evaluate (engine v) now ctx)),
             last_verified = now, verification_count = 0, escalation_count = 0,
             trust_history = [1 - risk_level (snd (evaluate (engine v) now ctx))]\<rparr>"
  by (simp add: initialize_session_def Let_def split_beta)

lemma initialize_session_engine:
  "deny_threshold (engine (fst (initialize_session v now ctx))) = deny_threshold (engine v)"
  "challenge_threshold (engine (fst (initialize_session v now ctx))) = challenge_threshold (engine v)"
  "restrict_threshold (engine (fst (initialize_session v now ctx))) = restrict_threshold (engine v)"
  "resource_sensitivity (engine (fst (initialize_session v now ctx))) = resource_sensitivity (engine v)"
  by (simp_all add: initialize_session_def evaluate_def Let_def split_beta)

lemma default_verifier_decisions:
  "decision (snd (evaluate (engine default_verifier) t trusted_ctx)) = ALLOW"
  "decision (snd (evaluate (engine default_verifier) t untrusted_ctx)) = DENY"
  "decision (snd (evaluate (engine (fst (initialize_session default_verifier t' c))) t trusted_ctx)) = ALLOW"
  "decision (snd (evaluate (engine (fst (initialize_session default_verifier t' c))) t untrusted_ctx)) = DENY"
  by (simp_all add: decision_evaluate initialize_session_engine trust_trusted_ctx trust_untrusted_ctx
      ctx_ids default_verifier_def init_AccessDecisionEngine_def)

text \<open>
  C1. A session initialised with a fully trusted context holds the decision ALLOW;
  re-verifying it with an untrusted context gives DENY, yet the result reports
  escalated = false and the escalation count stays 0. In the other direction, a session
  that holds DENY and is re-verified to ALLOW is reported as escalated and counted.
\<close>

theorem reverify_allow_then_deny_not_escalated:
  "map_of (snd (reverify (fst (initialize_session default_verifier 0 trusted_ctx)) 300 untrusted_ctx))
       ''previous_decision'' = Some (PStr ''allow'')
   \<and> map_of (snd (reverify (fst (initialize_session default_verifier 0 trusted_ctx)) 300 untrusted_ctx))
       ''current_decision'' = Some (PStr ''deny'')
   \<and> map_of (snd (reverify (fst (initialize_session default_verifier 0 trusted_ctx)) 300 untrusted_ctx))
       ''escalated'' = Some (PBool False)
   \<and> map_option escalation_count
       (states (fst (reverify (fst (initialize_session default_verifier 0 trusted_ctx)) 300 untrusted_ctx))
          (session_key ''alice'' ''s1'')) = Some 0
   \<and> map_of (snd (reverify (fst (initialize_session default_verifier 0 untrusted_ctx)) 300 trusted_ctx))
       ''previous_decision'' = Some (PStr ''deny'')
   \<and> map_of (snd (reverify (fst (initialize_session default_verifier 0 untrusted_ctx)) 300 trusted_ctx))
       ''current_decision'' = Some (PStr ''allow'')
   \<and> map_of (snd (reverify (fst (initialize_session default_verifier 0 untrusted_ctx)) 300 trusted_ctx))
       ''escalated'' = Some (PBool True)
   \<and> map_option escalation_count
       (states (fst (reverify (fst (initialize_session default_verifier 0 untrusted_ctx)) 300 trusted_ctx))
          (session_key ''alice'' ''s1'')) = Some 1"
proof -
  have s1: "states (fst (initialize_session default_verifier 0 trusted_ctx))
              (session_key (ctx_entity_id untrusted_ctx) (ctx_session_id untrusted_ctx))
            = Some \<lparr>vs_entity_id = ''alice'', vs_session_id = ''s1'', initial_decision = ALLOW,
                    current_decision = ALLOW, last_verified = 0, verification_count = 0,
                    escalation_count = 0,
                    trust_history = [1 - risk_level (snd (evaluate (engine default_verifier) 0 trusted_ctx))]\<rparr>"
    using initialize_session_state [of default_verifier 0 trusted_ctx]
    by (simp add: ctx_ids default_verifier_decisions)
  have s2: "states (fst (initialize_session default_verifier 0 untrusted_ctx))
              (session_key (ctx_entity_id trusted_ctx) (ctx_session_id trusted_ctx))
            = Some \<lparr>vs_entity_id = ''alice'', vs_session_id = ''s1'', initial_decision = DENY,
                    current_decision = DENY, last_verified = 0, verification_count = 0,
                    escalation_count = 0,
                    trust_history = [1 - risk_level (snd (evaluate (engine default_verifier) 0 untrusted_ctx))]\<rparr>"
    using initialize_session_state [of default_verifier 0 untrusted_ctx]
    by (simp add: ctx_ids default_verifier_decisions)
  show ?thesis
    using reverify_fields [OF s1, of 300] reverify_fields [OF s2, of 300]
    by (simp add: default_verifier_decisions ctx_ids)
qed




section \<open>Risk composition\<close>

text \<open>
  C6 fails as stated: with the default weights and empty threat intelligence the
  composite for behavior 0.1, device health 0.95, network trust 0.8, no source address
  and authentication strength 0.9 is 0.085, which is not 0.094 to three decimals.
\<close>

theorem calculate_low_risk_counterexample:
  "snd (calculate default_RiskEngine 0 ''alice'' 0.1 0.95 0.8 '''' 0.9)
     = Inr \<lparr>rs_entity_id = ''alice'', composite_score = 0.085, rs_risk_level = ''low'',
             components = [(''behavior'', 0.1), (''device'', 0.05), (''network'', 0.2),
                           (''threat'', 0), (''auth'', 0.1)],
             rs_timestamp = 0, factors = []\<rparr>
   \<and> \<not> \<bar>(0.085 :: real) - 0.094\<bar> \<le> 0.0005"
  by (simp add: calculate_def default_RiskEngine_def init_RiskEngine_def init_ThreatIntel_def
      check_ip_def check_credential_def py_round4_def round_half_even_def Let_def)

text \<open>
  C6, amended. For every entity and clock reading, the default engine with empty threat
  intelligence returns the composite score 0.085 and the risk level "low" for these
  signals.
\<close>

theorem calculate_low_risk_scenario:
  "map_sum id (\<lambda>r. (composite_score r, rs_risk_level r))
     (snd (calculate default_RiskEngine now eid 0.1 0.95 0.8 '''' 0.9))
   = Inr (0.085, ''low'')"
  by (simp add: calculate_def default_RiskEngine_def init_RiskEngine_def init_ThreatIntel_def
      check_ip_def check_credential_def py_round4_def round_half_even_def Let_def)

section \<open>Policy conditions\<close>

lemma ops_ordering_name: "ops (ordering_name op) = Some (py_order op)"
  by (cases op) (simp_all add: ops_def)

lemma cond_evaluate_ordering:
  "cond_evaluate \<lparr>field = f, operator = ordering_name op, cond_value = v\<rparr> context =
     (case dict_get context f of
        PNone \<Rightarrow> False
      | a \<Rightarrow> (case py_order op a v of Inl e \<Rightarrow> False | Inr b \<Rightarrow> b))"
  by (simp add: cond_evaluate_def ops_ordering_name split: pyval.splits)

text \<open>
  C5 fails as stated: the condition "zone gt a" matches the context in which zone is the
  string b, by the lexicographic comparison of the two strings, where a numeric cast
  would give no match.
\<close>

theorem cond_evaluate_strings_counterexample:
  "cond_evaluate \<lparr>field = ''zone'', operator = ''gt'', cond_value = PStr ''a''\<rparr>
       [(''zone'', PStr ''b'')] = True
   \<and> spec_ordering Gt (PStr ''b'') (PStr ''a'') = False"
  by (simp add: cond_evaluate_def ops_def dict_get_def spec_ordering_def)

text \<open>
  C5, amended. A condition with an ordering operator applies the native comparison to
  the context's value and the condition's value: two numbers (bool, int or float) are
  compared as numbers, two strings lexicographically, two lists at their first pair of
  unequal elements; every other pair of operands, and a field that is missing from the
  context or None, makes the condition false.
\<close>

theorem cond_evaluate_ordering_native:
  "cond_evaluate \<lparr>field = f, operator = ordering_name op, cond_value = v\<rparr> context =
     (case (dict_get context f, v) of
        (PStr s, PStr t) \<Rightarrow> cmp_str op s t
      | (PList xs, PList ys) \<Rightarrow> (case py_order_list op xs ys of Inl e \<Rightarrow> False | Inr b \<Rightarrow> b)
      | (a, b) \<Rightarrow> (case (py_num a, py_num b) of
                     (Some x, Some y) \<Rightarrow> cmp_real op x y
                   | _ \<Rightarrow> False))"
  unfolding cond_evaluate_ordering
  by (cases "dict_get context f"; cases v; simp)

section \<open>Welford statistics of the session durations\<close>








lemma then_step_ok:
  assumes "fst (then_step f g p) = None"
  shows "fst (f p) = None" and "fst (g (snd (f p))) = None"
    and "snd (then_step f g p) = snd (g (snd (f p)))"
  using assms by (auto simp: then_step_def split: prod.splits option.splits)


lemma stats_observe_hour [simp]: "session_stats (snd (observe_hour ev p)) = session_stats p"
  by (simp add: observe_hour_def session_stats_def split: pyval.splits option.splits)

lemma stats_observe_dow [simp]: "session_stats (snd (observe_dow ev p)) = session_stats p"
  by (simp add: observe_dow_def session_stats_def split: pyval.splits option.splits)

lemma stats_observe_resource [simp]: "session_stats (snd (observe_resource ev p)) = session_stats p"
  by (simp add: observe_resource_def session_stats_def split: sum.splits)

lemma stats_observe_action [simp]: "session_stats (snd (observe_action ev p)) = session_stats p"
  by (simp add: observe_action_def session_stats_def split: sum.splits)



lemma stats_observe_feature_items [simp]:
  "session_stats (snd (observe_feature_items fs p)) = session_stats p"
proof (induction fs arbitrary: p)
  case Nil
  then show ?case by simp
next
  case (Cons a fs)
  obtain k v where a: "a = (k, v)" by (cases a)
  show ?case
    unfolding a
    by (simp add: Let_def split_beta Cons.IH split: option.splits) (simp add: session_stats_def)
qed




lemma stats_new_profile [simp]: "session_stats (new_BaselineProfile eid t now) = (0, 0, 0)"
  by (simp add: session_stats_def new_BaselineProfile_def)









section \<open>Totality of the observer\<close>









lemma py_num_is_numeric: "py_num v = None \<longleftrightarrow> \<not> is_numeric v"
  by (cases v) simp_all




lemma observation_count_step [simp]:
  "observation_count (snd (observe_hour ev p)) = observation_count p"
  "observation_count (snd (observe_dow ev p)) = observation_count p"
  "observation_count (snd (observe_resource ev p)) = observation_count p"
  "observation_count (snd (observe_action ev p)) = observation_count p"
  "observation_count (snd (observe_duration ev p)) = observation_count p"
  "observation_count (snd (observe_location ev p)) = observation_count p"
  "observation_count (snd (observe_source_ip ev p)) = observation_count p"
  by (simp_all add: observe_hour_def observe_dow_def observe_resource_def observe_action_def
      observe_duration_def observe_location_def observe_source_ip_def Let_def
      split: pyval.splits option.splits sum.splits)

lemma observation_count_feature_items [simp]:
  "observation_count (snd (observe_feature_items fs p)) = observation_count p"
proof (induction fs arbitrary: p)
  case Nil
  then show ?case by simp
next
  case (Cons a fs)
  obtain k v where a: "a = (k, v)" by (cases a)
  show ?case
    unfolding a by (simp add: Let_def split_beta Cons.IH split: option.splits)
qed

lemma observation_count_features [simp]:
  "observation_count (snd (observe_features ev p)) = observation_count p"
  by (simp add: observe_features_def split: option.splits pyval.splits)







section \<open>The anomaly detector and the baseline store\<close>




section \<open>The duration component of the anomaly score\<close>

lemma bind_err_Inr: "bind_err m f = Inr y \<longleftrightarrow> (\<exists>x. m = Inr x \<and> f x = Inr y)"
  by (cases m) (simp_all add: bind_err_def)

lemma named_Inr: "named key r = Inr c \<Longrightarrow> \<exists>s d. c = [(key, s, d)] \<and> r = Inr (s, d)"
  by (auto simp: named_def bind_err_Inr)

lemma no_duration_key:
  assumes "named key r = Inr c" and "key \<noteq> ''duration''"
  shows "map_of (map (\<lambda>(key, score, detail). (key, score)) c) ''duration'' = None"
  using named_Inr [OF assms(1)] assms(2) by auto

lemma time_no_duration:
  "time_component p ev = Inr c \<Longrightarrow> map_of (map (\<lambda>(key, score, detail). (key, score)) c) ''duration'' = None"
  by (cases "dict_get ev ''hour''")
     (auto simp: time_component_def bind_err_Inr dest!: no_duration_key)

lemma resource_no_duration:
  "resource_component p ev = Inr c \<Longrightarrow> map_of (map (\<lambda>(key, score, detail). (key, score)) c) ''duration'' = None"
  by (auto simp: resource_component_def Let_def split: if_splits dest!: no_duration_key)

lemma location_no_duration:
  "location_component p ev = Inr c \<Longrightarrow> map_of (map (\<lambda>(key, score, detail). (key, score)) c) ''duration'' = None"
  by (auto simp: location_component_def Let_def split: if_splits dest!: no_duration_key)

lemma ip_no_duration:
  "ip_component p ev = Inr c \<Longrightarrow> map_of (map (\<lambda>(key, score, detail). (key, score)) c) ''duration'' = None"
  by (auto simp: ip_component_def Let_def split: if_splits dest!: no_duration_key)

lemma duration_component_numeric:
  assumes "py_num (dict_get ev ''session_duration'') = Some x"
  shows "duration_component p ev = named ''duration'' (duration_anomaly p (dict_get ev ''session_duration''))"
  using assms by (cases "dict_get ev ''session_duration''") (simp_all add: duration_component_def)

lemma duration_anomaly_score:
  assumes "py_num d = Some x" and "duration_anomaly p d = Inr (s, detail)"
  shows "s = (if session_count p < 5 then 0
              else py_round4 (1 / (1 + exp (- 1.5 *
                     (\<bar>x - session_duration_mean p\<bar>
                        / (if sqrt (session_duration_variance p) = 0 then 1
                           else sqrt (session_duration_variance p)) - 2)))))"
  using assms
  by (auto simp: duration_anomaly_def bind_err_Inr session_duration_std_def Let_def
      split: if_splits)

lemma analyze_Inr:
  assumes "get_profile (baseline det) eid = Some p" and "10 \<le> observation_count p"
    and "snd (analyze det eid ev) = Inr r"
  shows "\<exists>c1 c2 c3 c4 c5.
           time_component p ev = Inr c1 \<and> resource_component p ev = Inr c2
           \<and> location_component p ev = Inr c3 \<and> ip_component p ev = Inr c4
           \<and> duration_component p ev = Inr c5
           \<and> component_scores r = map (\<lambda>(key, score, detail). (key, score)) (c1 @ c2 @ c3 @ c4 @ c5)
           \<and> anomaly_score r = py_round4 (composite_score_of (ad_weights det) (component_scores r))
           \<and> is_anomalous r = (composite_score_of (ad_weights det) (component_scores r) \<ge> threshold det)"
  using assms by (auto simp: analyze_def Let_def bind_err_Inr)

text \<open>
  C3, amended. For an entity with an established baseline (at least ten observations) and
  an event with a numeric session duration x on which \<open>analyze\<close> returns: the component
  scores hold an entry for the duration, which is 0 when fewer than five sessions were
  seen, and otherwise the logistic function of \<open>1.5 (z - 2)\<close> rounded to four decimals,
  with \<open>z = |x - mean| / d\<close>, where d is the standard deviation, or 1 when that is 0. The
  entry takes part in the weighted composite like every other one.
\<close>

theorem analyze_duration_component:
  assumes "get_profile (baseline det) eid = Some p" and "10 \<le> observation_count p"
    and "py_num (dict_get ev ''session_duration'') = Some x"
    and "snd (analyze det eid ev) = Inr r"
  shows "map_of (component_scores r) ''duration'' =
           Some (if session_count p < 5 then 0
                 else py_round4 (1 / (1 + exp (- 1.5 *
                        (\<bar>x - session_duration_mean p\<bar>
                           / (if sqrt (session_duration_variance p) = 0 then 1
                              else sqrt (session_duration_variance p)) - 2)))))
         \<and> anomaly_score r = py_round4 (composite_score_of (ad_weights det) (component_scores r))"
proof -
  from analyze_Inr [OF assms(1,2,4)] obtain c1 c2 c3 c4 c5 where
    c: "time_component p ev = Inr c1" "resource_component p ev = Inr c2"
       "location_component p ev = Inr c3" "ip_component p ev = Inr c4"
       "duration_component p ev = Inr c5"
    and sc: "component_scores r = map (\<lambda>(key, score, detail). (key, score)) (c1 @ c2 @ c3 @ c4 @ c5)"
    and comp: "anomaly_score r = py_round4 (composite_score_of (ad_weights det) (component_scores r))"
    by blast
  from c(5) duration_component_numeric [OF assms(3), of p]
  have "named ''duration'' (duration_anomaly p (dict_get ev ''session_duration'')) = Inr c5" by simp
  from named_Inr [OF this] obtain s d where
    c5: "c5 = [(''duration'', s, d)]"
    and da: "duration_anomaly p (dict_get ev ''session_duration'') = Inr (s, d)" by blast
  have "map_of (component_scores r) ''duration'' = Some s"
    using time_no_duration [OF c(1)] resource_no_duration [OF c(2)]
      location_no_duration [OF c(3)] ip_no_duration [OF c(4)]
    by (simp add: sc c5 map_add_def)
  then show ?thesis
    using duration_anomaly_score [OF assms(3) da] comp by simp
qed


text \<open>The definitions that evaluate \<open>analyze\<close> on the concrete detectors.\<close>

lemmas analyze_eval =
  analyze_def get_profile_def detector_over_def init_AnomalyDetector_def profile_with_sessions_def
  new_BaselineProfile_def time_component_def resource_component_def location_component_def
  ip_component_def duration_component_def named_def bind_err_def dict_get_def
  location_anomaly_def duration_anomaly_def composite_score_of_def
  session_duration_std_def session_duration_variance_def
  py_round4_def py_round2_def round_half_even_def Let_def

lemma sqrt_quarter: "sqrt (1 / 4) = 1 / 2"
  by (simp add: real_sqrt_divide)

text \<open>
  C3 fails as stated, in both parts. With no session seen, the duration entry 0 enters the
  composite with its weight: the same event scores 0.5625 with a duration and 0.9 without.
  With five sessions of standard deviation 0.5 and mean 10, the duration 11 has z = 2 and
  the score 0.5, where division by max(0.5, 1) gives z = 1 and a score below 0.5.
\<close>

theorem duration_component_counterexample:
  "map_sum id component_scores
      (snd (analyze (detector_over (profile_with_sessions 0 0 0)) ''u''
              [(''location'', PStr ''moon''), (''session_duration'', PFloat 100)]))
     = Inr [(''location'', 0.9), (''duration'', 0)]
   \<and> map_sum id anomaly_score
      (snd (analyze (detector_over (profile_with_sessions 0 0 0)) ''u''
              [(''location'', PStr ''moon''), (''session_duration'', PFloat 100)]))
     = Inr 0.5625
   \<and> map_sum id anomaly_score
      (snd (analyze (detector_over (profile_with_sessions 0 0 0)) ''u''
              [(''location'', PStr ''moon'')]))
     = Inr 0.9
   \<and> map_sum id component_scores
      (snd (analyze (detector_over (profile_with_sessions 5 10 1)) ''u''
              [(''session_duration'', PFloat 11)]))
     = Inr [(''duration'', 0.5)]
   \<and> spec_duration_score (profile_with_sessions 5 10 1) 11 \<noteq> Some 0.5"
proof -
  have a: "map_sum id component_scores
      (snd (analyze (detector_over (profile_with_sessions 0 0 0)) ''u''
              [(''location'', PStr ''moon''), (''session_duration'', PFloat 100)]))
     = Inr [(''location'', 0.9), (''duration'', 0)]"
    by (simp add: analyze_eval)
  have b: "map_sum id anomaly_score
      (snd (analyze (detector_over (profile_with_sessions 0 0 0)) ''u''
              [(''location'', PStr ''moon''), (''session_duration'', PFloat 100)]))
     = Inr 0.5625"
    by (simp add: analyze_eval)
  have c: "map_sum id anomaly_score
      (snd (analyze (detector_over (profile_with_sessions 0 0 0)) ''u''
              [(''location'', PStr ''moon'')]))
     = Inr 0.9"
    by (simp add: analyze_eval)
  have d: "map_sum id component_scores
      (snd (analyze (detector_over (profile_with_sessions 5 10 1)) ''u''
              [(''session_duration'', PFloat 11)]))
     = Inr [(''duration'', 0.5)]"
    by (simp add: analyze_eval sqrt_quarter)
  have "exp (3 / 2 :: real) \<noteq> 1" by simp
  then have e: "spec_duration_score (profile_with_sessions 5 10 1) 11 \<noteq> Some 0.5"
    by (simp add: spec_duration_score_def profile_with_sessions_def new_BaselineProfile_def
        session_duration_variance_def sqrt_quarter Let_def field_simps)
  from a b c d e show ?thesis by blast
qed

theorem analyze_duration_component_witness:
  "get_profile (baseline (detector_over (profile_with_sessions 5 10 1))) ''u''
     = Some (profile_with_sessions 5 10 1)
   \<and> 10 \<le> observation_count (profile_with_sessions 5 10 1)
   \<and> py_num (dict_get [(''session_duration'', PFloat 11)] ''session_duration'') = Some 11
   \<and> (case snd (analyze (detector_over (profile_with_sessions 5 10 1)) ''u''
                  [(''session_duration'', PFloat 11)]) of
         Inr r \<Rightarrow> map_of (component_scores r) ''duration'' = Some 0.5 \<and> anomaly_score r = 0.5
       | Inl e \<Rightarrow> False)"
proof -
  let ?p = "profile_with_sessions 5 10 1"
  let ?ev = "[(''session_duration'', PFloat 11)]"
  have h1: "get_profile (baseline (detector_over ?p)) ''u'' = Some ?p"
    by (simp add: get_profile_def detector_over_def init_AnomalyDetector_def)
  have h2: "10 \<le> observation_count ?p"
    by (simp add: profile_with_sessions_def)
  have h3: "py_num (dict_get ?ev ''session_duration'') = Some 11"
    by (simp add: dict_get_def)
  have "\<exists>r. snd (analyze (detector_over ?p) ''u'' ?ev) = Inr r"
    by (simp add: analyze_eval sqrt_quarter)
  then obtain r where r: "snd (analyze (detector_over ?p) ''u'' ?ev) = Inr r" ..
  have sc: "map_of (component_scores r) ''duration'' = Some 0.5"
    using analyze_duration_component [OF h1 h2 h3 r]
    by (simp add: profile_with_sessions_def new_BaselineProfile_def session_duration_variance_def
        sqrt_quarter py_round4_def round_half_even_def)
  have "map_sum id anomaly_score (snd (analyze (detector_over ?p) ''u'' ?ev)) = Inr 0.5"
    by (simp add: analyze_eval sqrt_quarter)
  with r have "anomaly_score r = 0.5" by simp
  with h1 h2 h3 r sc show ?thesis by simp
qed

section \<open>Severity of lateral movement alerts\<close>

lemma round_half_even_le:
  assumes "x \<le> of_int n"
  shows "round_half_even x \<le> n"
proof -
  have f: "\<lfloor>x\<rfloor> \<le> n" using assms by (simp add: floor_le_iff)
  show ?thesis
  proof (cases "x - of_int \<lfloor>x\<rfloor> < 1 / 2 \<or> (x - of_int \<lfloor>x\<rfloor> = 1 / 2 \<and> even \<lfloor>x\<rfloor>)")
    case True
    then show ?thesis using f by (auto simp: round_half_even_def Let_def)
  next
    case False
    then have "of_int \<lfloor>x\<rfloor> + 1 / 2 \<le> x" by auto
    with assms have "of_int \<lfloor>x\<rfloor> + (1 / 2 :: real) \<le> of_int n" by linarith
    then have "\<lfloor>x\<rfloor> < n" by linarith
    then show ?thesis by (auto simp: round_half_even_def Let_def)
  qed
qed

lemma py_round4_le_1: "x \<le> 1 \<Longrightarrow> py_round4 x \<le> 1"
  using round_half_even_le [of "x * 10000" 10000] by (simp add: py_round4_def)

lemma dfs_length:
  "p \<in> set (dfs g md cur tgt pth visited) \<Longrightarrow> int (length p) \<le> md"
proof (induction g md cur tgt pth visited rule: dfs.induct)
  case (1 g md cur tgt pth visited)
  show ?case
  proof (cases "int (length pth) > md")
    case True
    with "1.prems" show ?thesis by (simp add: dfs.simps)
  next
    case False
    show ?thesis
    proof (cases "cur = tgt")
      case True
      with False "1.prems" show ?thesis by (simp add: dfs.simps)
    next
      case ne: False
      from "1.prems" False ne obtain nb where
        nb: "nb \<in> set (get_neighbors g cur)" "nb \<notin> set visited"
        and p: "p \<in> set (dfs g md nb tgt (pth @ [nb]) (nb # visited))"
        by (subst (asm) dfs.simps) (auto split: if_splits)
      from "1.IH" [OF False ne nb p] show ?thesis .
    qed
  qed
qed

lemma all_paths_length: "p \<in> set (all_paths g s d k) \<Longrightarrow> int (length p) \<le> k"
  unfolding all_paths_def by (rule dfs_length)

lemma privilege_escalation_severity:
  assumes "a \<in> set (detect_privilege_escalation det)"
  shows "severity a \<le> 1"
proof -
  from assms obtain p low high where
    p: "p \<in> set (all_paths (graph det) low high 4)"
    and a: "severity a = py_round4 (0.6 + 0.1 * real (length p))"
    by (auto simp: detect_privilege_escalation_def Let_def split: if_splits)
  from all_paths_length [OF p] have "real (length p) \<le> 4" by simp
  then have "0.6 + 0.1 * real (length p) \<le> 1" by simp
  then show ?thesis unfolding a by (rule py_round4_le_1)
qed

lemma collect_alerts_mem:
  assumes "collect_alerts rs = Inr as" and "a \<in> set as"
  shows "\<exists>bs. Inr bs \<in> set rs \<and> a \<in> set bs"
  using assms
proof (induction rs arbitrary: as)
  case Nil
  then show ?case by simp
next
  case (Cons r rs)
  from Cons.prems(1) obtain xs ys where
    r: "r = Inr xs" and rest: "collect_alerts rs = Inr ys" and as: "as = xs @ ys"
    by (auto simp: bind_err_Inr)
  from Cons.prems(2) as consider "a \<in> set xs" | "a \<in> set ys" by auto
  then show ?case
  proof cases
    case 1
    with r show ?thesis by auto
  next
    case 2
    from Cons.IH [OF rest 2] show ?thesis by auto
  qed
qed

lemma hopping_alert_severity:
  assumes "hopping_alert hop s es = Inr as" and "a \<in> set as"
  shows "severity a \<le> 1"
  using assms
  by (auto simp: hopping_alert_def Let_def split: if_splits intro!: py_round4_le_1)

lemma embedding_alert_severity:
  assumes "embedding_alert thr base x = Inr as" and "a \<in> set as"
  shows "severity a \<le> 1"
  using assms
  by (cases x) (auto simp: embedding_alert_def Let_def split: if_splits option.splits intro!: py_round4_le_1)

lemma credential_hopping_severity:
  assumes "detect_credential_hopping det = Inr as" and "a \<in> set as"
  shows "severity a \<le> 1"
proof -
  from collect_alerts_mem [OF assms [unfolded detect_credential_hopping_def]]
  obtain bs where m: "Inr bs \<in> set (map (\<lambda>(s, es). hopping_alert (hop_threshold det) s es)
                                      (group_by_source (edges (graph det))))"
    and a: "a \<in> set bs" by blast
  from m obtain x where "Inr bs = (case x of (s, es) \<Rightarrow> hopping_alert (hop_threshold det) s es)"
    by auto
  then have "hopping_alert (hop_threshold det) (fst x) (snd x) = Inr bs"
    by (simp add: split_beta)
  then show ?thesis using a by (rule hopping_alert_severity)
qed

lemma embedding_anomalies_severity:
  assumes "detect_embedding_anomalies det = Inr as" and "a \<in> set as"
  shows "severity a \<le> 1"
proof (cases "baseline_embeddings det = []")
  case True
  with assms show ?thesis by (simp add: detect_embedding_anomalies_def)
next
  case False
  with assms(1) obtain nodes current where
    "collect_alerts (map (embedding_alert (anomaly_threshold det) (baseline_embeddings det))
       (zip nodes current)) = Inr as"
    by (auto simp: detect_embedding_anomalies_def bind_err_Inr)
  from collect_alerts_mem [OF this assms(2)]
  obtain bs where m: "Inr bs \<in> set (map (embedding_alert (anomaly_threshold det) (baseline_embeddings det))
                                      (zip nodes current))"
    and a: "a \<in> set bs" by blast
  from m obtain x where "Inr bs = embedding_alert (anomaly_threshold det) (baseline_embeddings det) x"
    by auto
  then have "embedding_alert (anomaly_threshold det) (baseline_embeddings det) x = Inr bs"
    by simp
  then show ?thesis using a by (rule embedding_alert_severity)
qed

text \<open>
  C9. Whenever \<open>detect\<close> returns, every alert it returns has a severity of at most 1:
  the severities of credential hopping and of embedding anomalies are capped by the
  minimum with 1, and the severity 0.6 + 0.1 * length of a privilege escalation path is
  at most 1 because \<open>all_paths\<close> with depth 4 yields only paths of at most four nodes.
\<close>

theorem detect_severity_bounded:
  assumes "detect det = Inr alerts"
  shows "list_all (\<lambda>a. severity a \<le> 1) alerts
         \<and> list_all (\<lambda>p. length p \<le> 4) (all_paths (graph det) s d 4)"
proof -
  from assms obtain a1 a3 where
    h: "detect_credential_hopping det = Inr a1"
    and e: "detect_embedding_anomalies det = Inr a3"
    and al: "alerts = sort_key (\<lambda>a. - severity a) (a1 @ detect_privilege_escalation det @ a3)"
    by (auto simp: detect_def bind_err_Inr Let_def)
  have "severity a \<le> 1" if "a \<in> set alerts" for a
  proof -
    from that al consider "a \<in> set a1" | "a \<in> set (detect_privilege_escalation det)" | "a \<in> set a3"
      by auto
    then show ?thesis
      using credential_hopping_severity [OF h] privilege_escalation_severity
        embedding_anomalies_severity [OF e] by cases auto
  qed
  moreover have "length p \<le> 4" if "p \<in> set (all_paths (graph det) s d 4)" for p
    using all_paths_length [OF that] by simp
  ultimately show ?thesis by (simp add: list_all_iff)
qed


text \<open>The definitions that evaluate \<open>detect\<close> on the detector over four hosts.\<close>

lemmas detect_eval =
  detect_def detect_credential_hopping_def detect_privilege_escalation_def
  detect_embedding_anomalies_def hopping_alert_def group_by_source_def unique_in_order_def
  py_slice_to_def bind_err_def hosts_detector_def hosts_graph_def host_edge_def add_edge_def
  add_node_def init_AccessGraph_def all_paths_def get_neighbors_def dfs.simps
  py_round4_def round_half_even_def Let_def

lemma hosts_detect:
  "map_sum id (map (\<lambda>a. (alert_type a, severity a, path a))) (detect hosts_detector)
     = Inr [(''privilege_escalation'', 1, [''low'', ''m1'', ''m2'', ''high'']),
            (''privilege_escalation'', 0.9, [''low'', ''m2'', ''high'']),
            (''credential_hopping'', 0.5, [''low'', ''m1'', ''m2'', ''high''])]"
  by (simp add: detect_eval)


theorem detect_severity_bounded_witness:
  "(case detect hosts_detector of
      Inr alerts \<Rightarrow>
        map severity alerts = [1, 0.9, 0.5] \<and> list_all (\<lambda>a. severity a \<le> 1) alerts
    | Inl e \<Rightarrow> False)
   \<and> list_all (\<lambda>p. length p \<le> 4) (all_paths (graph hosts_detector) ''low'' ''high'' 4)
   \<and> all_paths (graph hosts_detector) ''low'' ''high'' 4
       = [[''low'', ''m1'', ''m2'', ''high''], [''low'', ''m2'', ''high''], [''low'', ''high'']]"
proof -
  from hosts_detect obtain alerts where d: "detect hosts_detector = Inr alerts"
    by (cases "detect hosts_detector") auto
  with hosts_detect have sev: "map severity alerts = [1, 0.9, 0.5]"
    by (auto simp: map_eq_Cons_conv)
  have paths: "all_paths (graph hosts_detector) ''low'' ''high'' 4
       = [[''low'', ''m1'', ''m2'', ''high''], [''low'', ''m2'', ''high''], [''low'', ''high'']]"
    by (simp add: detect_eval)
  from detect_severity_bounded [OF d, of "''low''" "''high''"] sev paths d
  show ?thesis by simp
qed


end
